theory Spec2Isabelle
  imports Main "HOL-Library.Sublist" "HOL-Library.Multiset" "HOL-Library.Char_ord"
    "HOL-Library.List_Lexorder"
begin


section \<open>Go strings\<close>

text \<open>
  A Go string is a sequence of bytes, here a \<^typ>\<open>string\<close>. The functions of package
  \<^verbatim>\<open>strings\<close> that the program calls are written out after their library
  definitions. Where the library works on runes (\<^verbatim>\<open>ToLower\<close>, the single-character
  wildcards of \<^verbatim>\<open>filepath.Match\<close>) the model works on bytes, which is the same on
  ASCII text.
\<close>

definition HasPrefix :: "string \<Rightarrow> string \<Rightarrow> bool" where
  "HasPrefix s pre = prefix pre s"

definition HasSuffix :: "string \<Rightarrow> string \<Rightarrow> bool" where
  "HasSuffix s suf = suffix suf s"

text \<open>\<^verbatim>\<open>strings.Index(s, substr)\<close>: the index of the first instance, \<open>None\<close> for -1.\<close>

fun Index :: "string \<Rightarrow> string \<Rightarrow> nat option" where
  "Index [] sub = (if sub = [] then Some 0 else None)"
| "Index (c # cs) sub =
     (if prefix sub (c # cs) then Some 0 else map_option Suc (Index cs sub))"

definition Contains :: "string \<Rightarrow> string \<Rightarrow> bool" where
  "Contains s sub = (Index s sub \<noteq> None)"

lemma Index_bound: "Index s sub = Some i \<Longrightarrow> i + length sub \<le> length s"
proof (induction s arbitrary: i)
  case Nil
  then show ?case by (simp split: if_splits)
next
  case (Cons c cs)
  show ?case
  proof (cases "prefix sub (c # cs)")
    case True
    with Cons.prems show ?thesis by (auto dest: prefix_length_le)
  next
    case False
    with Cons.prems obtain j where "Index cs sub = Some j" "i = Suc j" by auto
    with Cons.IH show ?thesis by fastforce
  qed
qed

text \<open>
  \<^verbatim>\<open>strings.Split(s, sep)\<close> for a non-empty separator: cut at the first instance of
  \<open>sep\<close>, then go on after it. An empty separator explodes the string into its
  characters.
\<close>

function genSplit :: "string \<Rightarrow> string \<Rightarrow> string list" where
  "genSplit s sep =
     (if sep = [] then [s]
      else (case Index s sep of
              None \<Rightarrow> [s]
            | Some i \<Rightarrow> take i s # genSplit (drop (i + length sep) s) sep))"
  by pat_completeness auto
termination
proof (relation "measure (\<lambda>(s, sep). length s)")
  show "wf (measure (\<lambda>(s, sep). length s))" by simp
next
  fix s sep :: string and i
  assume "sep \<noteq> []" and "Index s sep = Some i"
  then have "i + length sep \<le> length s" and "0 < length sep"
    by (auto dest: Index_bound)
  then have "length s - (i + length sep) < length s"
    by arith
  then show "((drop (i + length sep) s, sep), (s, sep)) \<in> measure (\<lambda>(s, sep). length s)"
    by simp
qed

declare genSplit.simps [simp del]

definition Split :: "string \<Rightarrow> string \<Rightarrow> string list" where
  "Split s sep = (if sep = [] then map (\<lambda>c. [c]) s else genSplit s sep)"

lemma Index_prefix: "Index s sub = Some i \<Longrightarrow> prefix sub (drop i s)"
proof (induction s arbitrary: i)
  case Nil then show ?case by (simp split: if_splits)
next
  case (Cons c cs)
  then show ?case by (cases "prefix sub (c # cs)") auto
qed

lemma Index_decomp:
  assumes "Index s sub = Some i"
  shows "s = take i s @ sub @ drop (i + length sub) s"
proof -
  from assms have "prefix sub (drop i s)" by (rule Index_prefix)
  then obtain r where r: "drop i s = sub @ r" by (auto simp: prefix_def)
  then have "drop (length sub) (drop i s) = r" by simp
  then have "drop (i + length sub) s = r" by (simp add: add.commute)
  with r have "drop i s = sub @ drop (i + length sub) s" by simp
  then have "take i s @ drop i s = take i s @ sub @ drop (i + length sub) s" by simp
  then show ?thesis by simp
qed

lemma genSplit_nonempty: "genSplit s sep \<noteq> []"
  by (subst genSplit.simps) (auto split: option.splits)

lemma Split_two:
  assumes "Split s sep = [a, b]" and "sep \<noteq> []"
  shows "s = a @ sep @ b \<and> Contains s sep"
proof -
  from assms have g: "genSplit s sep = [a, b]" by (simp add: Split_def)
  then obtain i where i: "Index s sep = Some i"
    using assms(2) by (cases "Index s sep") (auto simp: genSplit.simps[of s sep])
  with g assms(2) have a: "a = take i s" and g2: "genSplit (drop (i + length sep) s) sep = [b]"
    by (auto simp: genSplit.simps[of s sep])
  have "b = drop (i + length sep) s"
    using g2 assms(2)
    by (cases "Index (drop (i + length sep) s) sep")
       (auto simp: genSplit.simps[of "drop (i + length sep) s" sep] genSplit_nonempty)
  with a Index_decomp[OF i] i show ?thesis by (simp add: Contains_def)
qed

text \<open>\<^verbatim>\<open>strings.Count(s, substr)\<close>: the number of non-overlapping instances.\<close>

function Count :: "string \<Rightarrow> string \<Rightarrow> nat" where
  "Count s sep =
     (if sep = [] then length s + 1
      else (case Index s sep of
              None \<Rightarrow> 0
            | Some i \<Rightarrow> Suc (Count (drop (i + length sep) s) sep)))"
  by pat_completeness auto
termination
proof (relation "measure (\<lambda>(s, sep). length s)")
  show "wf (measure (\<lambda>(s, sep). length s))" by simp
next
  fix s sep :: string and i
  assume "sep \<noteq> []" and "Index s sep = Some i"
  then have "i + length sep \<le> length s" and "0 < length sep"
    by (auto dest: Index_bound)
  then have "length s - (i + length sep) < length s"
    by arith
  then show "((drop (i + length sep) s, sep), (s, sep)) \<in> measure (\<lambda>(s, sep). length s)"
    by simp
qed

declare Count.simps [simp del]

text \<open>\<^verbatim>\<open>strings.ToLower\<close> on ASCII: the letters A to Z are mapped to a to z.\<close>

definition toLowerByte :: "char \<Rightarrow> char" where
  "toLowerByte c =
     (let n = (of_char c :: nat) in if 65 \<le> n \<and> n \<le> 90 then char_of (n + 32) else c)"

definition ToLower :: "string \<Rightarrow> string" where
  "ToLower s = map toLowerByte s"

section \<open>Package path/filepath (Unix)\<close>

definition Separator :: char where
  "Separator = CHR ''/''"

subsection \<open>filepath.Match\<close>

text \<open>
  The terms of a pattern chunk: \<^verbatim>\<open>?\<close>, a character class (negated or not, with its
  ranges) and a literal character. The star is handled between chunks.
\<close>

datatype chunk_term = AnyChar | CharClass bool "(char \<times> char) list" | Lit char

text \<open>
  \<^verbatim>\<open>scanChunk\<close>: the leading stars, the chunk up to the next star that is not inside
  a character class, and the rest of the pattern.
\<close>

fun scanTo :: "bool \<Rightarrow> string \<Rightarrow> string \<times> string" where
  "scanTo inrange [] = ([], [])"
| "scanTo inrange (c # cs) =
     (if c = CHR 0x5C then
        (case cs of
           [] \<Rightarrow> ([c], [])
         | d # ds \<Rightarrow> (let (a, b) = scanTo inrange ds in (c # d # a, b)))
      else if c = CHR ''['' then (let (a, b) = scanTo True cs in (c # a, b))
      else if c = CHR '']'' then (let (a, b) = scanTo False cs in (c # a, b))
      else if c = CHR ''*'' \<and> \<not> inrange then ([], c # cs)
      else (let (a, b) = scanTo inrange cs in (c # a, b)))"

definition scanChunk :: "string \<Rightarrow> bool \<times> string \<times> string" where
  "scanChunk pattern =
     (let p = dropWhile (\<lambda>c. c = CHR ''*'') pattern
      in (pattern \<noteq> [] \<and> hd pattern = CHR ''*'', scanTo False p))"

text \<open>\<^verbatim>\<open>getEsc\<close>: one possibly escaped character of a class; the class must go on after it.\<close>

fun getEsc :: "string \<Rightarrow> (char \<times> string) option" where
  "getEsc [] = None"
| "getEsc (c # cs) =
     (if c = CHR ''-'' \<or> c = CHR '']'' then None
      else if c = CHR 0x5C then
        (case cs of
           [] \<Rightarrow> None
         | d # ds \<Rightarrow> if ds = [] then None else Some (d, ds))
      else if cs = [] then None else Some (c, cs))"

lemma getEsc_shorter: "getEsc chunk = Some (r, rest) \<Longrightarrow> length rest < length chunk"
  by (cases chunk) (auto split: if_splits list.splits)

text \<open>
  The ranges of a character class, up to its closing bracket (which closes the class
  only after at least one range).
\<close>

function classRanges :: "nat \<Rightarrow> string \<Rightarrow> ((char \<times> char) list \<times> string) option" where
  "classRanges nrange chunk =
     (if chunk \<noteq> [] \<and> hd chunk = CHR '']'' \<and> 0 < nrange then Some ([], tl chunk)
      else
        (case getEsc chunk of
           None \<Rightarrow> None
         | Some (lo, chunk1) \<Rightarrow>
             if hd chunk1 = CHR ''-'' then
               (case getEsc (tl chunk1) of
                  None \<Rightarrow> None
                | Some (hi, chunk2) \<Rightarrow>
                    map_option (\<lambda>(rs, rest). ((lo, hi) # rs, rest))
                      (classRanges (Suc nrange) chunk2))
             else
               map_option (\<lambda>(rs, rest). ((lo, lo) # rs, rest))
                 (classRanges (Suc nrange) chunk1)))"
  by pat_completeness auto
termination
proof (relation "measure (\<lambda>(n, chunk). length chunk)")
  show "wf (measure (\<lambda>(n, chunk). length chunk))" by simp
next
  fix nrange :: nat and chunk x2 chunk1 x2a chunk2 :: string and lo hi :: char
    and x2b :: "char \<times> string" and x2c :: "char \<times> string"
  assume "getEsc chunk = Some x2b" "(lo, chunk1) = x2b"
    "getEsc (tl chunk1) = Some x2c" "(hi, chunk2) = x2c"
  then have "length chunk1 < length chunk" "length chunk2 < length (tl chunk1)"
    by (auto dest: getEsc_shorter)
  then show "((Suc nrange, chunk2), (nrange, chunk)) \<in> measure (\<lambda>(n, chunk). length chunk)"
    by simp
next
  fix nrange :: nat and chunk chunk1 :: string and lo :: char and x2b :: "char \<times> string"
  assume "getEsc chunk = Some x2b" "(lo, chunk1) = x2b"
  then have "length chunk1 < length chunk"
    by (auto dest: getEsc_shorter)
  then show "((Suc nrange, chunk1), (nrange, chunk)) \<in> measure (\<lambda>(n, chunk). length chunk)"
    by simp
qed

declare classRanges.simps [simp del]

lemma classRanges_shorter:
  "classRanges n chunk = Some (rs, rest) \<Longrightarrow> length rest < length chunk"
proof (induction n chunk arbitrary: rs rest rule: classRanges.induct)
  case (1 nrange chunk)
  show ?case
  proof (cases "chunk \<noteq> [] \<and> hd chunk = CHR '']'' \<and> 0 < nrange")
    case True
    with "1.prems" have "rest = tl chunk"
      by (simp add: classRanges.simps[of nrange chunk])
    with True show ?thesis by (cases chunk) auto
  next
    case False
    note unfold = classRanges.simps[of nrange chunk]
    from False "1.prems" obtain lo chunk1 where esc: "getEsc chunk = Some (lo, chunk1)"
      by (auto simp: unfold split: option.splits)
    then have l1: "length chunk1 < length chunk" by (rule getEsc_shorter)
    show ?thesis
    proof (cases "hd chunk1 = CHR ''-''")
      case True
      with False esc "1.prems" obtain hi chunk2 rs' where
        esc2: "getEsc (tl chunk1) = Some (hi, chunk2)" and
        rec: "classRanges (Suc nrange) chunk2 = Some (rs', rest)"
        by (auto simp: unfold split: option.splits)
      from esc2 have "length chunk2 < length (tl chunk1)" by (rule getEsc_shorter)
      moreover from "1.IH"(1)[OF False esc refl True esc2 refl rec]
      have "length rest < length chunk2" .
      ultimately show ?thesis using l1 by simp
    next
      case nodash: False
      with False esc "1.prems" obtain rs' where
        rec: "classRanges (Suc nrange) chunk1 = Some (rs', rest)"
        by (auto simp: unfold split: option.splits)
      from "1.IH"(2)[OF False esc refl nodash rec]
      have "length rest < length chunk1" .
      then show ?thesis using l1 by simp
    qed
  qed
qed

text \<open>
  The terms of a chunk, \<open>None\<close> when the chunk is malformed (\<^verbatim>\<open>ErrBadPattern\<close>): a
  class that is not closed or has a bad range, a backslash at the end.
\<close>

function parseChunk :: "string \<Rightarrow> chunk_term list option" where
  "parseChunk [] = Some []"
| "parseChunk (c # cs) =
     (if c = CHR ''['' then
        (case classRanges 0 (if cs \<noteq> [] \<and> hd cs = CHR ''^'' then tl cs else cs) of
           None \<Rightarrow> None
         | Some (rs, rest) \<Rightarrow>
             map_option (Cons (CharClass (cs \<noteq> [] \<and> hd cs = CHR ''^'') rs)) (parseChunk rest))
      else if c = CHR ''?'' then map_option (Cons AnyChar) (parseChunk cs)
      else if c = CHR 0x5C then
        (case cs of
           [] \<Rightarrow> None
         | d # ds \<Rightarrow> map_option (Cons (Lit d)) (parseChunk ds))
      else map_option (Cons (Lit c)) (parseChunk cs))"
  by pat_completeness auto
termination
proof (relation "measure length")
  show "wf (measure length)" by simp
next
  fix c :: char and cs rest :: string and x2 :: "(char \<times> char) list \<times> string"
    and rs :: "(char \<times> char) list"
  assume "classRanges 0 (if cs \<noteq> [] \<and> hd cs = CHR ''^'' then tl cs else cs) = Some x2"
    and "(rs, rest) = x2"
  then have "classRanges 0 (if cs \<noteq> [] \<and> hd cs = CHR ''^'' then tl cs else cs) = Some (rs, rest)"
    by simp
  then have "length rest < length (if cs \<noteq> [] \<and> hd cs = CHR ''^'' then tl cs else cs)"
    by (rule classRanges_shorter)
  then have "length rest < Suc (length cs)"
    by (auto split: if_splits)
  then show "(rest, c # cs) \<in> measure length" by simp
qed auto

text \<open>Matching the terms of a chunk at the start of a string; the result is the rest.\<close>

definition inRange :: "char \<Rightarrow> char \<times> char \<Rightarrow> bool" where
  "inRange r = (\<lambda>(lo, hi). (of_char lo :: nat) \<le> of_char r \<and> (of_char r :: nat) \<le> of_char hi)"

fun matchTerms :: "chunk_term list \<Rightarrow> string \<Rightarrow> string option" where
  "matchTerms [] s = Some s"
| "matchTerms (t # ts) [] = None"
| "matchTerms (AnyChar # ts) (c # cs) =
     (if c = Separator then None else matchTerms ts cs)"
| "matchTerms (CharClass negated rs # ts) (c # cs) =
     (if list_ex (inRange c) rs = negated then None else matchTerms ts cs)"
| "matchTerms (Lit x # ts) (c # cs) =
     (if x = c then matchTerms ts cs else None)"

datatype chunk_result = ChunkOk string | ChunkNo | ChunkErr

text \<open>
  \<^verbatim>\<open>matchChunk\<close>: a malformed chunk is an error whatever the string is (the library
  goes on scanning a chunk after a mismatch to report it).
\<close>

definition matchChunk :: "string \<Rightarrow> string \<Rightarrow> chunk_result" where
  "matchChunk chunk s =
     (case parseChunk chunk of
        None \<Rightarrow> ChunkErr
      | Some ts \<Rightarrow> (case matchTerms ts s of Some t \<Rightarrow> ChunkOk t | None \<Rightarrow> ChunkNo))"

text \<open>
  The loop of \<^verbatim>\<open>Match\<close> after a star: skip one more byte at a time, never a
  separator, and look for the chunk there. The last chunk must exhaust the name.
\<close>

fun starLoop :: "string \<Rightarrow> bool \<Rightarrow> string \<Rightarrow> string option" where
  "starLoop chunk lastChunk [] = None"
| "starLoop chunk lastChunk (c # cs) =
     (if c = Separator then None
      else (case matchChunk chunk cs of
              ChunkOk t \<Rightarrow> if lastChunk \<and> t \<noteq> [] then starLoop chunk lastChunk cs else Some t
            | ChunkErr \<Rightarrow> None
            | ChunkNo \<Rightarrow> starLoop chunk lastChunk cs))"

lemma scanTo_length: "scanTo inrange p = (a, b) \<Longrightarrow> length a + length b = length p"
  by (induction inrange p arbitrary: a b rule: scanTo.induct)
    (auto split: if_splits list.splits prod.splits)

lemma scanTo_progress:
  "scanTo inrange p = (a, b) \<Longrightarrow> p \<noteq> [] \<Longrightarrow> hd p \<noteq> CHR ''*'' \<Longrightarrow> a \<noteq> []"
  by (cases p) (auto split: if_splits list.splits prod.splits)

lemma scanChunk_shorter:
  assumes "pattern \<noteq> []"
  shows "length (snd (snd (scanChunk pattern))) < length pattern"
proof -
  define p where "p = dropWhile (\<lambda>c. c = CHR ''*'') pattern"
  obtain a b where ab: "scanTo False p = (a, b)" by (cases "scanTo False p")
  then have len: "length a + length b = length p" by (rule scanTo_length)
  have ple: "length p \<le> length pattern" unfolding p_def by (rule length_dropWhile_le)
  have res: "snd (snd (scanChunk pattern)) = b"
    using ab by (simp add: scanChunk_def p_def)
  show ?thesis
  proof (cases "hd pattern = CHR ''*''")
    case True
    with assms have "length p < length pattern"
      unfolding p_def by (cases pattern) (auto intro: le_imp_less_Suc length_dropWhile_le)
    with len res show ?thesis by simp
  next
    case False
    with assms have "p = pattern" unfolding p_def by (cases pattern) auto
    with ab assms False have "a \<noteq> []" by (auto dest: scanTo_progress)
    with len ple res show ?thesis by (cases a) auto
  qed
qed

text \<open>
  \<^verbatim>\<open>filepath.Match(pattern, name)\<close>, its boolean result: \<open>False\<close> also where the
  library returns \<^verbatim>\<open>ErrBadPattern\<close>, which \<^verbatim>\<open>matchesPatterns\<close> discards.
\<close>

function Match :: "string \<Rightarrow> string \<Rightarrow> bool" where
  "Match pattern name =
     (if pattern = [] then name = []
      else
        (let star = fst (scanChunk pattern);
             chunk = fst (snd (scanChunk pattern));
             rest = snd (snd (scanChunk pattern))
         in if star \<and> chunk = [] then \<not> Contains name [Separator]
            else
              (case matchChunk chunk name of
                 ChunkOk t \<Rightarrow>
                   if t = [] \<or> rest \<noteq> [] then Match rest t
                   else if star then
                     (case starLoop chunk (rest = []) name of
                        Some t' \<Rightarrow> Match rest t'
                      | None \<Rightarrow> False)
                   else False
               | ChunkErr \<Rightarrow> False
               | ChunkNo \<Rightarrow>
                   if star then
                     (case starLoop chunk (rest = []) name of
                        Some t' \<Rightarrow> Match rest t'
                      | None \<Rightarrow> False)
                   else False)))"
  by pat_completeness auto
termination
  by (relation "measure (\<lambda>(pattern, name). length pattern)")
    (auto simp: scanChunk_shorter)

declare Match.simps [simp del]

text \<open>
  A plain string has none of the characters that are special in a pattern: the star, the
  question mark, the opening bracket and the backslash. A plain chunk matches exactly
  the strings that start with it.
\<close>

definition plain :: "string \<Rightarrow> bool" where
  "plain s = (\<forall>c \<in> set s. c \<noteq> CHR ''*'' \<and> c \<noteq> CHR ''?'' \<and> c \<noteq> CHR ''['' \<and> c \<noteq> CHR 0x5C)"

lemma plain_Cons: "plain (c # cs) = (c \<noteq> CHR ''*'' \<and> c \<noteq> CHR ''?'' \<and> c \<noteq> CHR ''['' \<and> c \<noteq> CHR 0x5C \<and> plain cs)"
  by (auto simp: plain_def)

lemma scanTo_plain: "plain p \<Longrightarrow> scanTo False (p @ q) = (p @ fst (scanTo False q), snd (scanTo False q))"
  by (induction p) (auto simp: plain_Cons split: prod.splits)

lemma parseChunk_plain: "plain p \<Longrightarrow> parseChunk p = Some (map Lit p)"
  by (induction p) (auto simp: plain_Cons)

lemma matchTerms_Lit: "matchTerms (map Lit p) name = (if prefix p name then Some (drop (length p) name) else None)"
  by (induction p arbitrary: name) (case_tac name; auto)+

lemma matchChunk_plain:
  "plain p \<Longrightarrow> matchChunk p name = (if prefix p name then ChunkOk (drop (length p) name) else ChunkNo)"
  by (simp add: matchChunk_def parseChunk_plain matchTerms_Lit)

lemma starLoop_plain_last:
  "plain s \<Longrightarrow> starLoop s True name = Some t \<Longrightarrow> t = [] \<and> suffix s name"
proof (induction name)
  case Nil then show ?case by simp
next
  case (Cons c cs)
  show ?case
  proof (cases "prefix s cs")
    case True
    then obtain r where r: "cs = s @ r" by (auto simp: prefix_def)
    show ?thesis
    proof (cases "r = []")
      case True
      with r Cons.prems show ?thesis
        by (auto simp: matchChunk_plain suffix_def split: if_splits)
    next
      case False
      with r Cons.prems have "starLoop s True cs = Some t"
        by (auto simp: matchChunk_plain split: if_splits)
      with Cons.IH Cons.prems(1) show ?thesis by (auto simp: suffix_Cons)
    qed
  next
    case False
    with Cons.prems have "starLoop s True cs = Some t"
      by (auto simp: matchChunk_plain split: if_splits)
    with Cons.IH Cons.prems(1) show ?thesis by (auto simp: suffix_Cons)
  qed
qed

lemma dropWhile_star_plain: "plain s \<Longrightarrow> dropWhile (\<lambda>c. c = CHR ''*'') s = s"
  by (cases s) (auto simp: plain_Cons)

lemma scanTo_plain_all: "plain s \<Longrightarrow> scanTo False s = (s, [])"
  using scanTo_plain[of s "[]"] by simp

lemma scanChunk_stars: "plain s \<Longrightarrow> scanChunk (CHR ''*'' # CHR ''*'' # s) = (True, s, [])"
  by (simp add: scanChunk_def dropWhile_star_plain scanTo_plain_all)

lemma scanChunk_plain_prefix:
  assumes "plain p" and "p \<noteq> []"
  shows "scanChunk (p @ CHR ''*'' # CHR ''*'' # s) = (False, p, CHR ''*'' # CHR ''*'' # s)"
proof -
  from assms obtain c cs where p: "p = c # cs" and c: "c \<noteq> CHR ''*''"
    by (cases p) (auto simp: plain_Cons)
  have "scanTo False (p @ CHR ''*'' # CHR ''*'' # s) = (p, CHR ''*'' # CHR ''*'' # s)"
    using scanTo_plain[OF assms(1), of "CHR ''*'' # CHR ''*'' # s"] by simp
  with p c show ?thesis by (simp add: scanChunk_def)
qed

lemma Match_unfold:
  assumes "scanChunk pattern = (star, chunk, rest)" and "pattern \<noteq> []"
  shows "Match pattern name =
     (if star \<and> chunk = [] then \<not> Contains name [Separator]
      else
        (case matchChunk chunk name of
           ChunkOk t \<Rightarrow>
             if t = [] \<or> rest \<noteq> [] then Match rest t
             else if star then
               (case starLoop chunk (rest = []) name of
                  Some t' \<Rightarrow> Match rest t'
                | None \<Rightarrow> False)
             else False
         | ChunkErr \<Rightarrow> False
         | ChunkNo \<Rightarrow>
             if star then
               (case starLoop chunk (rest = []) name of
                  Some t' \<Rightarrow> Match rest t'
                | None \<Rightarrow> False)
             else False))"
  using assms by (subst Match.simps) (simp add: Let_def)

lemma Match_stars:
  assumes "plain s" and "Match (CHR ''*'' # CHR ''*'' # s) name"
  shows "suffix s name"
proof (cases "s = []")
  case True then show ?thesis by simp
next
  case False
  note unf = Match_unfold[OF scanChunk_stars[OF assms(1)]]
  have loop: "suffix s name" if "starLoop s True name = Some t" for t
    using starLoop_plain_last[OF assms(1) that] by simp
  show ?thesis
  proof (cases "prefix s name")
    case True
    then obtain r where r: "name = s @ r" by (auto simp: prefix_def)
    show ?thesis
    proof (cases "r = []")
      case True with r show ?thesis by simp
    next
      case nonempty: False
      with assms(2) False r obtain t where "starLoop s True name = Some t"
        by (auto simp: unf matchChunk_plain[OF assms(1)] split: option.splits)
      then show ?thesis by (rule loop)
    qed
  next
    case noprefix: False
    with assms(2) False obtain t where "starLoop s True name = Some t"
      by (auto simp: unf matchChunk_plain[OF assms(1)] split: option.splits)
    then show ?thesis by (rule loop)
  qed
qed

lemma Match_plain:
  assumes "plain p" and "plain s" and "Match (p @ CHR ''*'' # CHR ''*'' # s) name"
  shows "prefix p name \<and> suffix s name"
proof (cases "p = []")
  case True
  with assms show ?thesis by (auto dest: Match_stars)
next
  case False
  note unf = Match_unfold[OF scanChunk_plain_prefix[OF assms(1) False, of s]]
  from assms(3) False have pre: "prefix p name"
    by (auto simp: unf matchChunk_plain[OF assms(1)] split: if_splits)
  from assms(3) False pre have "Match (CHR ''*'' # CHR ''*'' # s) (drop (length p) name)"
    by (auto simp: unf matchChunk_plain[OF assms(1)] split: if_splits)
  with assms(2) have "suffix s (drop (length p) name)" by (rule Match_stars)
  then have "suffix s name" by (rule suffix_order.trans) (rule suffix_drop)
  with pre show ?thesis by simp
qed

subsection \<open>Clean, Join, Dir, IsAbs, Rel\<close>

text \<open>
  The elements of a path: the pieces between separators, without the empty ones and
  the dots that stand for the directory itself.
\<close>

definition pathElems :: "string \<Rightarrow> string list" where
  "pathElems path = filter (\<lambda>e. e \<noteq> [] \<and> e \<noteq> ''.'') (Split path [Separator])"

text \<open>
  The rules of \<^verbatim>\<open>filepath.Clean\<close> on the elements, with the elements written so far
  in reverse: a double dot removes the element before it; at the start of a rooted path
  it is dropped, at the start of a relative path it is kept.
\<close>

fun cleanElems :: "bool \<Rightarrow> string list \<Rightarrow> string list \<Rightarrow> string list" where
  "cleanElems rooted out [] = rev out"
| "cleanElems rooted out (e # es) =
     (if e = ''..'' then
        (case out of
           [] \<Rightarrow> if rooted then cleanElems rooted [] es else cleanElems rooted [e] es
         | e' # out' \<Rightarrow>
             if e' = ''..'' then cleanElems rooted (e # out) es
             else cleanElems rooted out' es)
      else cleanElems rooted (e # out) es)"

fun joinElems :: "string list \<Rightarrow> string" where
  "joinElems [] = []"
| "joinElems [e] = e"
| "joinElems (e # es) = e @ Separator # joinElems es"

definition IsAbs :: "string \<Rightarrow> bool" where
  "IsAbs path = HasPrefix path [Separator]"

definition Clean :: "string \<Rightarrow> string" where
  "Clean path =
     (if path = [] then ''.''
      else if IsAbs path then Separator # joinElems (cleanElems True [] (pathElems path))
      else if cleanElems False [] (pathElems path) = [] then ''.''
      else joinElems (cleanElems False [] (pathElems path)))"

text \<open>\<^verbatim>\<open>filepath.Join\<close> of two elements: empty elements are ignored, the result is cleaned.\<close>

definition Join :: "string \<Rightarrow> string \<Rightarrow> string" where
  "Join a b =
     (if a \<noteq> [] then Clean (a @ Separator # b)
      else if b \<noteq> [] then Clean b
      else [])"

text \<open>\<^verbatim>\<open>filepath.Dir\<close>: all but the last element of the path, cleaned.\<close>

definition Dir :: "string \<Rightarrow> string" where
  "Dir path = Clean (rev (dropWhile (\<lambda>c. c \<noteq> Separator) (rev path)))"

text \<open>
  \<^verbatim>\<open>filepath.Ext\<close>: the suffix that starts at the final dot of the final element of
  the path, empty when that element has no dot. The scan runs from the end of the path.
\<close>

fun extFrom :: "string \<Rightarrow> string \<Rightarrow> string" where
  "extFrom [] acc = []"
| "extFrom (c # rs) acc =
     (if c = Separator then []
      else if c = CHR ''.'' then c # acc
      else extFrom rs (c # acc))"

definition Ext :: "string \<Rightarrow> string" where
  "Ext path = extFrom (rev path) []"

text \<open>
  The errors of the program: the errors of package \<^verbatim>\<open>os\<close> carry the operation, the
  path and the error number; \<^verbatim>\<open>fmt.Errorf\<close> with the verb \<^verbatim>\<open>%w\<close> wraps an error
  behind a formatted message; \<^verbatim>\<open>errors.New\<close> makes an error of a message alone.
\<close>

datatype errno =
  ENOENT | ENOTDIR | EISDIR | ENOTEMPTY | EEXIST | EINVAL | EBUSY | EACCES | EPERM | EXDEV
  | EROFS | ENOSPC | EIO

datatype error =
  PathError string string errno
  | LinkError string string string errno
  | Errorf string error
  | ErrorNew string

text \<open>
  \<^verbatim>\<open>filepath.Rel\<close>: both paths are cleaned; the common leading elements are dropped;
  what is left of the base is climbed with double dots. A relative and a rooted path
  cannot be related, nor can the climb pass a double dot of the base.
\<close>

fun stripCommon :: "string list \<Rightarrow> string list \<Rightarrow> string list \<times> string list" where
  "stripCommon (b # bs) (t # ts) = (if b = t then stripCommon bs ts else (b # bs, t # ts))"
| "stripCommon bs ts = (bs, ts)"

definition cleanedElems :: "string \<Rightarrow> string list" where
  "cleanedElems path = filter (\<lambda>e. e \<noteq> []) (Split path [Separator])"

definition Rel :: "string \<Rightarrow> string \<Rightarrow> error + string" where
  "Rel basepath targpath =
     (let base = Clean basepath; targ = Clean targpath;
          cannot = ErrorNew (''Rel: can't make '' @ targpath @ '' relative to '' @ basepath)
      in if targ = base then Inr ''.''
         else if IsAbs base \<noteq> IsAbs targ then Inl cannot
         else
           (case stripCommon (cleanedElems (if base = ''.'' then [] else base))
                   (cleanedElems targ) of
              (bs, ts) \<Rightarrow>
                if bs \<noteq> [] \<and> ts \<noteq> [] \<and> hd bs = ''..'' then Inl cannot
                else if bs \<noteq> [] then Inr (joinElems (map (\<lambda>b. ''..'') bs @ ts))
                else Inr (joinElems ts)))"

section \<open>The file system and package os\<close>

text \<open>
  The file system is a tree: a regular file with its content, or a directory with its
  entries by name, kept in the order of the names, which is the order in which
  \<^verbatim>\<open>os.ReadDir\<close> and \<^verbatim>\<open>filepath.Walk\<close> list them. The state of the world is the tree
  at the root and the working directory of the process (an absolute path).
\<close>

datatype node = FileNode string | DirNode "(string \<times> node) list"

record world =
  tree :: node
  cwd :: string

text \<open>
  A system call can fail for reasons outside the tree (permissions, devices, quotas):
  the faults say which call fails, and with which error, whatever the tree is.
\<close>

datatype syscall =
  OpGetwd
  | OpLstat string
  | OpReadDir string
  | OpReadFile string
  | OpWriteFile string
  | OpMkdirAll string
  | OpRemove string
  | OpRename string string

type_synonym faults = "syscall \<Rightarrow> errno option"

definition noFaults :: faults where
  "noFaults = (\<lambda>call. None)"

text \<open>The elements of a path from the root, a relative path taken from the working directory.\<close>

definition resolve :: "world \<Rightarrow> string \<Rightarrow> string list" where
  "resolve w path =
     cleanElems True [] (pathElems (if IsAbs path then path else cwd w @ Separator # path))"

fun lookup :: "node \<Rightarrow> string list \<Rightarrow> errno + node" where
  "lookup n [] = Inr n"
| "lookup (FileNode content) (e # es) = Inl ENOTDIR"
| "lookup (DirNode entries) (e # es) =
     (case map_of entries e of
        None \<Rightarrow> Inl ENOENT
      | Some child \<Rightarrow> lookup child es)"

fun putEntry :: "string \<Rightarrow> node \<Rightarrow> (string \<times> node) list \<Rightarrow> (string \<times> node) list" where
  "putEntry e n [] = [(e, n)]"
| "putEntry e n ((k, v) # rest) =
     (if e = k then (e, n) # rest
      else if e < k then (e, n) # (k, v) # rest
      else (k, v) # putEntry e n rest)"

definition delEntry :: "string \<Rightarrow> (string \<times> node) list \<Rightarrow> (string \<times> node) list" where
  "delEntry e entries = filter (\<lambda>(k, v). k \<noteq> e) entries"

text \<open>
  Putting a node at a path whose parent is a directory (anything else leaves the tree as
  it is; the system calls check before they write), and removing the node at a path.
\<close>

fun setNode :: "node \<Rightarrow> string list \<Rightarrow> node \<Rightarrow> node" where
  "setNode n [] new = new"
| "setNode (FileNode content) (e # es) new = FileNode content"
| "setNode (DirNode entries) (e # es) new =
     (if es = [] then DirNode (putEntry e new entries)
      else (case map_of entries e of
              None \<Rightarrow> DirNode entries
            | Some child \<Rightarrow> DirNode (putEntry e (setNode child es new) entries)))"

fun removeNode :: "node \<Rightarrow> string list \<Rightarrow> node" where
  "removeNode n [] = n"
| "removeNode (FileNode content) (e # es) = FileNode content"
| "removeNode (DirNode entries) (e # es) =
     (if es = [] then DirNode (delEntry e entries)
      else (case map_of entries e of
              None \<Rightarrow> DirNode entries
            | Some child \<Rightarrow> DirNode (putEntry e (removeNode child es) entries)))"

text \<open>\<^verbatim>\<open>os.Getwd\<close>, \<^verbatim>\<open>os.Lstat\<close>, \<^verbatim>\<open>os.ReadDir\<close> (the names) and \<^verbatim>\<open>os.ReadFile\<close>.\<close>

definition os_Getwd :: "faults \<Rightarrow> world \<Rightarrow> error + string" where
  "os_Getwd F w =
     (case F OpGetwd of
        Some e \<Rightarrow> Inl (PathError ''getwd'' ''.'' e)
      | None \<Rightarrow> Inr (cwd w))"

definition os_Lstat :: "faults \<Rightarrow> world \<Rightarrow> string \<Rightarrow> error + node" where
  "os_Lstat F w name =
     (case F (OpLstat name) of
        Some e \<Rightarrow> Inl (PathError ''lstat'' name e)
      | None \<Rightarrow>
          (case lookup (tree w) (resolve w name) of
             Inl e \<Rightarrow> Inl (PathError ''lstat'' name e)
           | Inr n \<Rightarrow> Inr n))"

definition os_ReadDir :: "faults \<Rightarrow> world \<Rightarrow> string \<Rightarrow> error + string list" where
  "os_ReadDir F w name =
     (case F (OpReadDir name) of
        Some e \<Rightarrow> Inl (PathError ''open'' name e)
      | None \<Rightarrow>
          (case lookup (tree w) (resolve w name) of
             Inl e \<Rightarrow> Inl (PathError ''open'' name e)
           | Inr (FileNode content) \<Rightarrow> Inl (PathError ''readdirent'' name ENOTDIR)
           | Inr (DirNode entries) \<Rightarrow> Inr (map fst entries)))"

definition os_ReadFile :: "faults \<Rightarrow> world \<Rightarrow> string \<Rightarrow> error + string" where
  "os_ReadFile F w name =
     (case F (OpReadFile name) of
        Some e \<Rightarrow> Inl (PathError ''open'' name e)
      | None \<Rightarrow>
          (case lookup (tree w) (resolve w name) of
             Inl e \<Rightarrow> Inl (PathError ''open'' name e)
           | Inr (FileNode content) \<Rightarrow> Inr content
           | Inr (DirNode entries) \<Rightarrow> Inl (PathError ''read'' name EISDIR)))"

text \<open>
  \<^verbatim>\<open>os.WriteFile\<close>: the parent must be a directory and the path must not be one; the
  file is created or its content replaced.
\<close>

definition os_WriteFile :: "faults \<Rightarrow> world \<Rightarrow> string \<Rightarrow> string \<Rightarrow> error option \<times> world" where
  "os_WriteFile F w name content =
     (case F (OpWriteFile name) of
        Some e \<Rightarrow> (Some (PathError ''open'' name e), w)
      | None \<Rightarrow>
          (let es = resolve w name in
           if es = [] then (Some (PathError ''open'' name EISDIR), w)
           else
             (case lookup (tree w) (butlast es) of
                Inl e \<Rightarrow> (Some (PathError ''open'' name e), w)
              | Inr (FileNode c) \<Rightarrow> (Some (PathError ''open'' name ENOTDIR), w)
              | Inr (DirNode entries) \<Rightarrow>
                  (case map_of entries (last es) of
                     Some (DirNode sub) \<Rightarrow> (Some (PathError ''open'' name EISDIR), w)
                   | _ \<Rightarrow> (None, w\<lparr>tree := setNode (tree w) es (FileNode content)\<rparr>)))))"

text \<open>
  \<^verbatim>\<open>os.MkdirAll\<close>: every missing directory on the way is created; a regular file on
  the way, or at the path itself, is the error \<^verbatim>\<open>ENOTDIR\<close>.
\<close>

fun mkdirAll :: "node \<Rightarrow> string list \<Rightarrow> errno + node" where
  "mkdirAll (FileNode content) es = Inl ENOTDIR"
| "mkdirAll (DirNode entries) [] = Inr (DirNode entries)"
| "mkdirAll (DirNode entries) (e # es) =
     (case mkdirAll (case map_of entries e of None \<Rightarrow> DirNode [] | Some child \<Rightarrow> child) es of
        Inl err \<Rightarrow> Inl err
      | Inr child' \<Rightarrow> Inr (DirNode (putEntry e child' entries)))"

definition os_MkdirAll :: "faults \<Rightarrow> world \<Rightarrow> string \<Rightarrow> error option \<times> world" where
  "os_MkdirAll F w name =
     (case F (OpMkdirAll name) of
        Some e \<Rightarrow> (Some (PathError ''mkdir'' name e), w)
      | None \<Rightarrow>
          (case mkdirAll (tree w) (resolve w name) of
             Inl e \<Rightarrow> (Some (PathError ''mkdir'' name e), w)
           | Inr t \<Rightarrow> (None, w\<lparr>tree := t\<rparr>)))"

text \<open>
  \<^verbatim>\<open>os.Remove\<close>: removes a file or an empty directory. The root cannot be removed, nor
  the directory named by a single dot, nor a directory that has entries.
\<close>

definition os_Remove :: "faults \<Rightarrow> world \<Rightarrow> string \<Rightarrow> error option \<times> world" where
  "os_Remove F w name =
     (case F (OpRemove name) of
        Some e \<Rightarrow> (Some (PathError ''remove'' name e), w)
      | None \<Rightarrow>
          (let es = resolve w name in
           case lookup (tree w) es of
             Inl e \<Rightarrow> (Some (PathError ''remove'' name e), w)
           | Inr (FileNode content) \<Rightarrow> (None, w\<lparr>tree := removeNode (tree w) es\<rparr>)
           | Inr (DirNode entries) \<Rightarrow>
               if es = [] then (Some (PathError ''remove'' name EBUSY), w)
               else if name = ''.'' then (Some (PathError ''remove'' name EINVAL), w)
               else if entries = [] then (None, w\<lparr>tree := removeNode (tree w) es\<rparr>)
               else (Some (PathError ''remove'' name ENOTEMPTY), w)))"

text \<open>
  \<^verbatim>\<open>os.Rename\<close>: the old path must exist. The library refuses a new path that is an
  existing directory (\<^verbatim>\<open>EEXIST\<close>), unless both paths name the same directory under
  two spellings. Then the system call: the parent of the new path must be a directory;
  a directory cannot replace a regular file, nor move below itself; otherwise the node
  moves to the new path, replacing a regular file there.
\<close>

definition os_Rename :: "faults \<Rightarrow> world \<Rightarrow> string \<Rightarrow> string \<Rightarrow> error option \<times> world" where
  "os_Rename F w oldname newname =
     (case F (OpRename oldname newname) of
        Some e \<Rightarrow> (Some (LinkError ''rename'' oldname newname e), w)
      | None \<Rightarrow>
          (let old = resolve w oldname; new = resolve w newname;
               fail = (\<lambda>e. (Some (LinkError ''rename'' oldname newname e), w))
           in case lookup (tree w) old of
                Inl e \<Rightarrow> fail e
              | Inr n \<Rightarrow>
                  if (case lookup (tree w) new of Inr (DirNode entries) \<Rightarrow> True | _ \<Rightarrow> False)
                     \<and> (newname = oldname \<or> old \<noteq> new) then fail EEXIST
                  else if old = new then (None, w)
                  else if old = [] then fail EBUSY
                  else if prefix old new then
                    fail (case n of FileNode c \<Rightarrow> ENOTDIR | DirNode entries \<Rightarrow> EINVAL)
                  else
                    (case lookup (tree w) (butlast new) of
                       Inl e \<Rightarrow> fail e
                     | Inr (FileNode c) \<Rightarrow> fail ENOTDIR
                     | Inr (DirNode entries) \<Rightarrow>
                         if (case n of DirNode sub \<Rightarrow> True | FileNode c \<Rightarrow> False)
                            \<and> map_of entries (last new) \<noteq> None then fail ENOTDIR
                         else (None, w\<lparr>tree := setNode (removeNode (tree w) old) new n\<rparr>))))"

text \<open>\<^verbatim>\<open>os.IsNotExist\<close> looks into the errors of package os, not into wrapped errors.\<close>

fun IsNotExist :: "error \<Rightarrow> bool" where
  "IsNotExist (PathError op path e) = (e = ENOENT)"
| "IsNotExist (LinkError op old new e) = (e = ENOENT)"
| "IsNotExist (Errorf msg err) = False"
| "IsNotExist (ErrorNew msg) = False"

text \<open>\<^verbatim>\<open>filepath.Abs\<close>: a relative path is joined with the working directory.\<close>

definition Abs :: "faults \<Rightarrow> world \<Rightarrow> string \<Rightarrow> error + string" where
  "Abs F w path =
     (if IsAbs path then Inr (Clean path)
      else (case os_Getwd F w of
              Inl err \<Rightarrow> Inl err
            | Inr wd \<Rightarrow> Inr (Join wd path)))"

subsection \<open>filepath.Walk\<close>

text \<open>
  \<^verbatim>\<open>filepath.Walk\<close> calls the function on the root and then, for a directory, on every
  entry in the order of the names, walking into directories. The function gets the
  path, the node (absent when \<^verbatim>\<open>Lstat\<close> failed) and the error of reading the node;
  a directory whose entries cannot be read is given to the function with that error.
  The walk stops at the first error the function returns. (The function of this
  program never returns \<^verbatim>\<open>SkipDir\<close> or \<^verbatim>\<open>SkipAll\<close>.) The state of the function is
  threaded through the calls.
\<close>

type_synonym 'a WalkFunc = "string \<Rightarrow> node option \<Rightarrow> error option \<Rightarrow> 'a \<Rightarrow> error option \<times> 'a"

fun walk :: "faults \<Rightarrow> 'a WalkFunc \<Rightarrow> string \<Rightarrow> node \<Rightarrow> 'a \<Rightarrow> error option \<times> 'a"
  and walkEntries ::
    "faults \<Rightarrow> 'a WalkFunc \<Rightarrow> string \<Rightarrow> (string \<times> node) list \<Rightarrow> 'a \<Rightarrow> error option \<times> 'a"
where
  "walk F walkFn path (FileNode content) s = walkFn path (Some (FileNode content)) None s"
| "walk F walkFn path (DirNode entries) s =
     (case F (OpReadDir path) of
        Some e \<Rightarrow> walkFn path (Some (DirNode entries)) (Some (PathError ''open'' path e)) s
      | None \<Rightarrow>
          (case walkFn path (Some (DirNode entries)) None s of
             (Some err1, s1) \<Rightarrow> (Some err1, s1)
           | (None, s1) \<Rightarrow> walkEntries F walkFn path entries s1))"
| "walkEntries F walkFn path [] s = (None, s)"
| "walkEntries F walkFn path ((name, child) # rest) s =
     (case F (OpLstat (Join path name)) of
        Some e \<Rightarrow>
          (case walkFn (Join path name) None (Some (PathError ''lstat'' (Join path name) e)) s of
             (Some err, s1) \<Rightarrow> (Some err, s1)
           | (None, s1) \<Rightarrow> walkEntries F walkFn path rest s1)
      | None \<Rightarrow>
          (case walk F walkFn (Join path name) child s of
             (Some err, s1) \<Rightarrow> (Some err, s1)
           | (None, s1) \<Rightarrow> walkEntries F walkFn path rest s1))"

definition Walk :: "faults \<Rightarrow> world \<Rightarrow> string \<Rightarrow> 'a WalkFunc \<Rightarrow> 'a \<Rightarrow> error option \<times> 'a" where
  "Walk F w root walkFn s =
     (case os_Lstat F w root of
        Inl err \<Rightarrow> walkFn root None (Some err) s
      | Inr info \<Rightarrow> walk F walkFn root info s)"


section \<open>config.go and rewriter.go: the data\<close>

record SourceFile =
  Path :: string
  Content :: string
  Charset :: string
  Modified :: bool

text \<open>\<^verbatim>\<open>TimeSaved\<close> is a \<^verbatim>\<open>time.Duration\<close>, a number of nanoseconds.\<close>

record Result =
  Before :: "SourceFile option"
  After :: "SourceFile option"
  RecipesThatMadeChanges :: "string list"
  TimeSaved :: int

record ResultsContainer =
  Generated :: "Result list"
  Deleted :: "Result list"
  Moved :: "Result list"
  RefactoredInPlace :: "Result list"
  ProjectRoot :: string
  FirstException :: "error option"

text \<open>Of a recipe the program reads the name only.\<close>

record Recipe =
  Name :: string

record Environment =
  ActiveRecipes :: "Recipe list"

text \<open>The fields of the configuration that discovery and the runner read.\<close>

record Config =
  Skip :: bool
  Exclusions :: "string list"
  PlainTextMasks :: "string list"
  AdditionalPlainTextMasks :: "string list"
  SizeThresholdMb :: int

record Rewriter =
  Config :: Config
  Environment :: "Environment option"
  BaseDir :: string

text \<open>
  What the program gets from outside: the faults of the system calls; the transformation
  of a source file, which in the source is the placeholder \<^verbatim>\<open>applyRecipes\<close> below; the
  order in which a \<^verbatim>\<open>range\<close> over a map yields the keys (any order, which Go leaves
  unspecified); and the outcome of \<^verbatim>\<open>LoadEnvironment\<close>, which reads YAML from a file or
  over the network.
\<close>

record host =
  faults :: faults
  recipes :: "SourceFile \<Rightarrow> SourceFile"
  mapKeys :: "string list \<Rightarrow> string list"
  loadedEnvironment :: "error + Environment"

definition applyRecipes :: "SourceFile \<Rightarrow> SourceFile" where
  "applyRecipes sourceFile =
     \<lparr>Path = Path sourceFile, Content = Content sourceFile, Charset = Charset sourceFile,
      Modified = False\<rparr>"

section \<open>config.go\<close>

definition getDefaultPlainTextMasks :: "string list" where
  "getDefaultPlainTextMasks =
     [''**/*.adoc'', ''**/*.aj'', ''**/*.bash'', ''**/*.bat'', ''**/CODEOWNERS'',
      ''**/*.css'', ''**/*.config'', ''**/[dD]ockerfile*'', ''**/*.[dD]ockerfile'',
      ''**/*[cC]ontainerfile*'', ''**/*.[cC]ontainerfile'', ''**/*.env'',
      ''**/.gitattributes'', ''**/.gitignore'', ''**/*.htm*'', ''**/gradlew'',
      ''**/.java-version'', ''**/*.jelly'', ''**/*.jsp'', ''**/*.ksh'', ''**/*.lock'',
      ''**/lombok.config'', ''**/*.md'', ''**/*.mf'', ''**/META-INF/services/**'',
      ''**/META-INF/spring/**'', ''**/META-INF/spring.factories'', ''**/mvnw'',
      ''**/mvnw.cmd'', ''**/*.qute.java'', ''**/.sdkmanrc'', ''**/*.sh'', ''**/*.sql'',
      ''**/*.svg'', ''**/*.tsx'', ''**/*.txt'', ''**/*.py'']"

definition GetPlainTextMasks :: "Config \<Rightarrow> string list" where
  "GetPlainTextMasks c =
     (if length (PlainTextMasks c) > 0 then PlainTextMasks c
      else getDefaultPlainTextMasks @ AdditionalPlainTextMasks c)"

text \<open>\<^verbatim>\<open>strings.TrimSpace\<close> on ASCII: blank, tab, line feed, vertical tab, form feed, return.\<close>

definition isSpace :: "char \<Rightarrow> bool" where
  "isSpace c = (c = CHR '' '' \<or> (9 \<le> (of_char c :: nat) \<and> (of_char c :: nat) \<le> 13))"

definition TrimSpace :: "string \<Rightarrow> string" where
  "TrimSpace s = rev (dropWhile isSpace (rev (dropWhile isSpace s)))"

fun cleanLoop :: "string list \<Rightarrow> string list \<Rightarrow> string list" where
  "cleanLoop [] seen = []"
| "cleanLoop (s # input) seen =
     (if TrimSpace s \<noteq> [] \<and> TrimSpace s \<notin> set seen
      then TrimSpace s # cleanLoop input (TrimSpace s # seen)
      else cleanLoop input seen)"

definition CleanStringSlice :: "string list \<Rightarrow> string list" where
  "CleanStringSlice input = cleanLoop input []"

definition GetExclusions :: "Config \<Rightarrow> string list" where
  "GetExclusions c = CleanStringSlice (Exclusions c)"

section \<open>rewriter.go: patterns and source files\<close>

text \<open>
  \<^verbatim>\<open>matchesPatterns\<close>: for each pattern, first \<^verbatim>\<open>filepath.Match\<close>; then, for a
  pattern that contains a double asterisk and splits on it into exactly two parts, the
  prefix and suffix test.
\<close>

fun matchesPatterns :: "string \<Rightarrow> string list \<Rightarrow> bool" where
  "matchesPatterns path [] = False"
| "matchesPatterns path (pattern # patterns) =
     (if Match pattern path then True
      else if Contains pattern ''**'' \<and> length (Split pattern ''**'') = 2
              \<and> HasPrefix path (Split pattern ''**'' ! 0)
              \<and> HasSuffix path (Split pattern ''**'' ! 1) then True
      else matchesPatterns path patterns)"

definition sourceExtensions :: "string list" where
  "sourceExtensions =
     [''.java'', ''.kt'', ''.groovy'', ''.scala'',
      ''.js'', ''.ts'', ''.jsx'', ''.tsx'',
      ''.go'', ''.rs'', ''.py'', ''.rb'',
      ''.c'', ''.cpp'', ''.h'', ''.hpp'',
      ''.cs'', ''.vb'', ''.php'',
      ''.xml'', ''.json'', ''.yaml'', ''.yml'',
      ''.properties'', ''.toml'', ''.hcl'']"

text \<open>The loop of \<^verbatim>\<open>isSourceFile\<close> over the extensions.\<close>

fun extAmong :: "string \<Rightarrow> string list \<Rightarrow> bool" where
  "extAmong ext [] = False"
| "extAmong ext (sourceExt # rest) = (if ext = sourceExt then True else extAmong ext rest)"

definition isSourceFile :: "string \<Rightarrow> bool" where
  "isSourceFile path = extAmong (ToLower (Ext path)) sourceExtensions"

section \<open>rewriter.go: discovery and processing\<close>

text \<open>
  \<^verbatim>\<open>GetBuildRoot\<close>: the absolute base directory, or the working directory.
\<close>

definition GetBuildRoot :: "faults \<Rightarrow> Rewriter \<Rightarrow> world \<Rightarrow> error + string" where
  "GetBuildRoot F r w =
     (if BaseDir r \<noteq> [] then
        (case Abs F w (BaseDir r) of
           Inl err \<Rightarrow> Inl (Errorf ''failed to get absolute path'' err)
         | Inr absPath \<Rightarrow> Inr absPath)
      else
        (case os_Getwd F w of
           Inl err \<Rightarrow> Inl (Errorf ''failed to get current working directory'' err)
         | Inr wd \<Rightarrow> Inr wd))"

text \<open>
  The function that \<^verbatim>\<open>FindSourceFiles\<close> gives to the walk; its state is the list of
  source files found so far. The size of a file is the length of its content. The
  source compares the size in megabytes as floating-point numbers,
  \<^verbatim>\<open>float64(size) / (1024 * 1024) > float64(SizeThresholdMb)\<close>, which for sizes below
  \<open>2 ^ 53\<close> bytes is the comparison of integers written here.
\<close>

definition findWalkFn ::
  "Rewriter \<Rightarrow> string \<Rightarrow> string list \<Rightarrow> string list \<Rightarrow> string list WalkFunc" where
  "findWalkFn r rootDir exclusions plainTextMasks path info err sourceFiles =
     (case err of
        Some e \<Rightarrow> (Some e, sourceFiles)
      | None \<Rightarrow>
          (case info of
             None \<Rightarrow> (None, sourceFiles)
           | Some (DirNode entries) \<Rightarrow> (None, sourceFiles)
           | Some (FileNode content) \<Rightarrow>
               if int (length content) > SizeThresholdMb (Config r) * 1048576
               then (None, sourceFiles)
               else
                 (case Rel rootDir path of
                    Inl e \<Rightarrow> (Some e, sourceFiles)
                  | Inr relPath \<Rightarrow>
                      if matchesPatterns relPath exclusions then (None, sourceFiles)
                      else if matchesPatterns relPath plainTextMasks \<or> isSourceFile relPath
                      then (None, sourceFiles @ [path])
                      else (None, sourceFiles))))"

text \<open>
  \<^verbatim>\<open>FindSourceFiles\<close> returns the list as the walk left it together with the error of
  the walk.
\<close>

definition FindSourceFiles ::
  "faults \<Rightarrow> Rewriter \<Rightarrow> world \<Rightarrow> string \<Rightarrow> string list \<times> error option" where
  "FindSourceFiles F r w rootDir =
     (case Walk F w rootDir
             (findWalkFn r rootDir (GetExclusions (Config r)) (GetPlainTextMasks (Config r))) [] of
        (err, sourceFiles) \<Rightarrow> (sourceFiles, err))"

definition getActiveRecipeNames :: "Environment \<Rightarrow> string list" where
  "getActiveRecipeNames env = map Name (ActiveRecipes env)"

definition Minute :: int where
  "Minute = 60 * 1000000000"

text \<open>
  \<^verbatim>\<open>processFile\<close>, with the environment that \<^verbatim>\<open>ProcessFiles\<close> has found to be loaded.
  The result is an error, or no result (no changes), or a result.
\<close>

definition processFile ::
  "host \<Rightarrow> Rewriter \<Rightarrow> Environment \<Rightarrow> world \<Rightarrow> string \<Rightarrow> error + Result option" where
  "processFile H r env w filePath =
     (case os_ReadFile (faults H) w filePath of
        Inl err \<Rightarrow> Inl (Errorf (''failed to read file '' @ filePath) err)
      | Inr content \<Rightarrow>
          (case Rel (BaseDir r) filePath of
             Inl err \<Rightarrow> Inl (Errorf ''failed to get relative path'' err)
           | Inr relPath \<Rightarrow>
               (let beforeFile = \<lparr>Path = relPath, Content = content, Charset = ''UTF-8'',
                              Modified = False\<rparr>;
                    afterFile = recipes H beforeFile
                in if Content beforeFile = Content afterFile then Inr None
                   else Inr (Some \<lparr>Before = Some beforeFile, After = Some afterFile,
                                    RecipesThatMadeChanges = getActiveRecipeNames env,
                                    TimeSaved = Minute\<rparr>))))"

text \<open>The categorization of a result in \<^verbatim>\<open>ProcessFiles\<close>.\<close>

definition categorize :: "Result \<Rightarrow> ResultsContainer \<Rightarrow> ResultsContainer" where
  "categorize result results =
     (case Before result of
        None \<Rightarrow> results\<lparr>Generated := Generated results @ [result]\<rparr>
      | Some beforeFile \<Rightarrow>
          (case After result of
             None \<Rightarrow> results\<lparr>Deleted := Deleted results @ [result]\<rparr>
           | Some afterFile \<Rightarrow>
               if Path beforeFile \<noteq> Path afterFile
               then results\<lparr>Moved := Moved results @ [result]\<rparr>
               else if Content beforeFile \<noteq> Content afterFile
               then results\<lparr>RefactoredInPlace := RefactoredInPlace results @ [result]\<rparr>
               else results))"

fun processLoop ::
  "host \<Rightarrow> Rewriter \<Rightarrow> Environment \<Rightarrow> world \<Rightarrow> string list \<Rightarrow> ResultsContainer
     \<Rightarrow> ResultsContainer" where
  "processLoop H r env w [] results = results"
| "processLoop H r env w (filePath # sourceFiles) results =
     (case processFile H r env w filePath of
        Inl err \<Rightarrow>
          processLoop H r env w sourceFiles
            (if FirstException results = None then results\<lparr>FirstException := Some err\<rparr>
             else results)
      | Inr None \<Rightarrow> processLoop H r env w sourceFiles results
      | Inr (Some result) \<Rightarrow> processLoop H r env w sourceFiles (categorize result results))"

definition ProcessFiles ::
  "host \<Rightarrow> Rewriter \<Rightarrow> world \<Rightarrow> string list \<Rightarrow> error + ResultsContainer" where
  "ProcessFiles H r w sourceFiles =
     (case Environment r of
        None \<Rightarrow> Inl (ErrorNew ''environment not loaded'')
      | Some env \<Rightarrow>
          Inr (processLoop H r env w sourceFiles
                 \<lparr>Generated = [], Deleted = [], Moved = [], RefactoredInPlace = [],
                  ProjectRoot = BaseDir r, FirstException = None\<rparr>))"

definition IsNotEmpty :: "ResultsContainer \<Rightarrow> bool" where
  "IsNotEmpty rc =
     (length (Generated rc) > 0 \<or> length (Deleted rc) > 0 \<or> length (Moved rc) > 0
      \<or> length (RefactoredInPlace rc) > 0)"

text \<open>
  \<^verbatim>\<open>LoadEnvironment\<close> sets the environment of the rewriter, or fails; what it loads
  comes from the host.
\<close>

definition LoadEnvironment :: "host \<Rightarrow> Rewriter \<Rightarrow> error + Rewriter" where
  "LoadEnvironment H r =
     (case loadedEnvironment H of
        Inl err \<Rightarrow> Inl err
      | Inr env \<Rightarrow> Inr (r\<lparr>Environment := Some env\<rparr>))"

section \<open>runner.go\<close>

text \<open>
  The runner logs what it does; the log is not part of the model. Every function that
  touches the file system takes the world and returns it with its error.
\<close>

definition writeFile ::
  "faults \<Rightarrow> string \<Rightarrow> SourceFile \<Rightarrow> world \<Rightarrow> error option \<times> world" where
  "writeFile F buildRoot sourceFile w =
     (let filePath = Join buildRoot (Path sourceFile); dir = Dir filePath
      in case os_MkdirAll F w dir of
           (Some err, w1) \<Rightarrow> (Some (Errorf (''failed to create directory '' @ dir) err), w1)
         | (None, w1) \<Rightarrow>
             (case os_WriteFile F w1 filePath (Content sourceFile) of
                (Some err, w2) \<Rightarrow> (Some (Errorf ''failed to write file'' err), w2)
              | (None, w2) \<Rightarrow> (None, w2)))"

text \<open>The four loops of \<^verbatim>\<open>applyChanges\<close>, each over one bucket.\<close>

fun applyGenerated ::
  "faults \<Rightarrow> string \<Rightarrow> Result list \<Rightarrow> world \<Rightarrow> error option \<times> world" where
  "applyGenerated F buildRoot [] w = (None, w)"
| "applyGenerated F buildRoot (result # rest) w =
     (case After result of
        None \<Rightarrow> applyGenerated F buildRoot rest w
      | Some afterFile \<Rightarrow>
          (case writeFile F buildRoot afterFile w of
             (Some err, w1) \<Rightarrow>
               (Some (Errorf (''failed to write generated file '' @ Path afterFile) err), w1)
           | (None, w1) \<Rightarrow> applyGenerated F buildRoot rest w1))"

fun applyDeleted ::
  "faults \<Rightarrow> string \<Rightarrow> Result list \<Rightarrow> world \<Rightarrow> error option \<times> world" where
  "applyDeleted F buildRoot [] w = (None, w)"
| "applyDeleted F buildRoot (result # rest) w =
     (case Before result of
        None \<Rightarrow> applyDeleted F buildRoot rest w
      | Some beforeFile \<Rightarrow>
          (case os_Remove F w (Join buildRoot (Path beforeFile)) of
             (Some err, w1) \<Rightarrow>
               if \<not> IsNotExist err
               then (Some (Errorf (''failed to delete file '' @ Join buildRoot (Path beforeFile)) err),
                     w1)
               else applyDeleted F buildRoot rest w1
           | (None, w1) \<Rightarrow> applyDeleted F buildRoot rest w1))"

text \<open>One moved file: the target directory, the rename, and the fallback when it fails.\<close>

definition moveFile ::
  "faults \<Rightarrow> string \<Rightarrow> SourceFile \<Rightarrow> SourceFile \<Rightarrow> world \<Rightarrow> error option \<times> world" where
  "moveFile F buildRoot beforeFile afterFile w =
     (let oldPath = Join buildRoot (Path beforeFile);
          newPath = Join buildRoot (Path afterFile);
          targetDir = Dir newPath
      in case os_MkdirAll F w targetDir of
           (Some err, w1) \<Rightarrow>
             (Some (Errorf (''failed to create directory '' @ targetDir) err), w1)
         | (None, w1) \<Rightarrow>
             (case os_Rename F w1 oldPath newPath of
                (None, w2) \<Rightarrow> (None, w2)
              | (Some renameErr, w2) \<Rightarrow>
                  (case writeFile F buildRoot afterFile w2 of
                     (Some err, w3) \<Rightarrow>
                       (Some (Errorf (''failed to write moved file '' @ Path afterFile) err), w3)
                   | (None, w3) \<Rightarrow>
                       (case os_Remove F w3 oldPath of
                          (Some err, w4) \<Rightarrow>
                            if \<not> IsNotExist err
                            then (Some (Errorf (''failed to remove old file '' @ oldPath) err), w4)
                            else (None, w4)
                        | (None, w4) \<Rightarrow> (None, w4)))))"

fun applyMoved ::
  "faults \<Rightarrow> string \<Rightarrow> Result list \<Rightarrow> world \<Rightarrow> error option \<times> world" where
  "applyMoved F buildRoot [] w = (None, w)"
| "applyMoved F buildRoot (result # rest) w =
     (case (Before result, After result) of
        (Some beforeFile, Some afterFile) \<Rightarrow>
          (case moveFile F buildRoot beforeFile afterFile w of
             (Some err, w1) \<Rightarrow> (Some err, w1)
           | (None, w1) \<Rightarrow> applyMoved F buildRoot rest w1)
      | _ \<Rightarrow> applyMoved F buildRoot rest w)"

fun applyRefactored ::
  "faults \<Rightarrow> string \<Rightarrow> Result list \<Rightarrow> world \<Rightarrow> error option \<times> world" where
  "applyRefactored F buildRoot [] w = (None, w)"
| "applyRefactored F buildRoot (result # rest) w =
     (case After result of
        None \<Rightarrow> applyRefactored F buildRoot rest w
      | Some afterFile \<Rightarrow>
          (case writeFile F buildRoot afterFile w of
             (Some err, w1) \<Rightarrow>
               (Some (Errorf (''failed to write refactored file '' @ Path afterFile) err), w1)
           | (None, w1) \<Rightarrow> applyRefactored F buildRoot rest w1))"

text \<open>\<^verbatim>\<open>isEmptyDir\<close>: a directory that cannot be read is not empty.\<close>

definition isEmptyDir :: "faults \<Rightarrow> world \<Rightarrow> string \<Rightarrow> bool" where
  "isEmptyDir F w dir =
     (case os_ReadDir F w dir of
        Inl err \<Rightarrow> False
      | Inr entries \<Rightarrow> length entries = 0)"

text \<open>
  \<^verbatim>\<open>cleanupEmptyDirectories\<close>. The candidates: the directory of the before-path of
  every deleted and every moved result.
\<close>

fun beforeDirs :: "string \<Rightarrow> Result list \<Rightarrow> string list" where
  "beforeDirs buildRoot [] = []"
| "beforeDirs buildRoot (result # rest) =
     (case Before result of
        None \<Rightarrow> beforeDirs buildRoot rest
      | Some beforeFile \<Rightarrow> Dir (Join buildRoot (Path beforeFile)) # beforeDirs buildRoot rest)"

definition candidateDirs :: "string \<Rightarrow> ResultsContainer \<Rightarrow> string list" where
  "candidateDirs buildRoot results =
     beforeDirs buildRoot (Deleted results) @ beforeDirs buildRoot (Moved results)"

text \<open>
  The depth of a directory is the number of separators in its path. The sort is the
  pair of loops of the source: position \<open>i\<close> is compared with every later position
  \<open>j\<close>, and the two are swapped when the later one is deeper.
\<close>

definition depth :: "string \<Rightarrow> nat" where
  "depth dir = Count dir [Separator]"

function sortInner :: "nat \<Rightarrow> nat \<Rightarrow> string list \<Rightarrow> string list" where
  "sortInner i j sortedDirs =
     (if j < length sortedDirs then
        sortInner i (Suc j)
          (if depth (sortedDirs ! i) < depth (sortedDirs ! j)
           then sortedDirs[i := sortedDirs ! j, j := sortedDirs ! i]
           else sortedDirs)
      else sortedDirs)"
  by pat_completeness auto
termination
  by (relation "measure (\<lambda>(i, j, ds). length ds - j)") auto

declare sortInner.simps [simp del]

lemma length_sortInner: "length (sortInner i j ds) = length ds"
proof (induction i j ds rule: sortInner.induct)
  case (1 i j ds)
  show ?case
  proof (cases "j < length ds")
    case True
    with 1 show ?thesis by (subst sortInner.simps) simp
  next
    case False
    then show ?thesis by (subst sortInner.simps) simp
  qed
qed

function sortOuter :: "nat \<Rightarrow> string list \<Rightarrow> string list" where
  "sortOuter i sortedDirs =
     (if i < length sortedDirs then sortOuter (Suc i) (sortInner i (Suc i) sortedDirs)
      else sortedDirs)"
  by pat_completeness auto
termination
  by (relation "measure (\<lambda>(i, ds). length ds - i)") (auto simp: length_sortInner)

declare sortOuter.simps [simp del]

text \<open>
  The keys of the map of candidates, in the order of the host, then sorted.
\<close>

definition sortedCandidates :: "host \<Rightarrow> string \<Rightarrow> ResultsContainer \<Rightarrow> string list" where
  "sortedCandidates H buildRoot results =
     sortOuter 0 (mapKeys H (remdups (candidateDirs buildRoot results)))"

text \<open>
  The loop that removes the empty directories; with the world it returns the
  directories it has removed, which the source logs.
\<close>

fun removeEmptyDirs :: "faults \<Rightarrow> string list \<Rightarrow> world \<Rightarrow> string list \<times> world" where
  "removeEmptyDirs F [] w = ([], w)"
| "removeEmptyDirs F (dir # dirs) w =
     (if isEmptyDir F w dir then
        (case os_Remove F w dir of
           (None, w1) \<Rightarrow>
             (case removeEmptyDirs F dirs w1 of
                (removedDirs, w2) \<Rightarrow> (dir # removedDirs, w2))
         | (Some err, w1) \<Rightarrow> removeEmptyDirs F dirs w1)
      else removeEmptyDirs F dirs w)"

definition cleanupEmptyDirectories ::
  "host \<Rightarrow> string \<Rightarrow> ResultsContainer \<Rightarrow> world \<Rightarrow> error option \<times> world" where
  "cleanupEmptyDirectories H buildRoot results w =
     (None, snd (removeEmptyDirs (faults H) (sortedCandidates H buildRoot results) w))"

text \<open>
  \<^verbatim>\<open>applyChanges\<close>: the four buckets in order, each stopping the apply at its first
  error; then the cleanup, whose error would only be logged.
\<close>

definition applyChanges :: "host \<Rightarrow> ResultsContainer \<Rightarrow> world \<Rightarrow> error option \<times> world" where
  "applyChanges H results w =
     (let buildRoot = ProjectRoot results; F = faults H
      in case applyGenerated F buildRoot (Generated results) w of
           (Some err, w1) \<Rightarrow> (Some err, w1)
         | (None, w1) \<Rightarrow>
             (case applyDeleted F buildRoot (Deleted results) w1 of
                (Some err, w2) \<Rightarrow> (Some err, w2)
              | (None, w2) \<Rightarrow>
                  (case applyMoved F buildRoot (Moved results) w2 of
                     (Some err, w3) \<Rightarrow> (Some err, w3)
                   | (None, w3) \<Rightarrow>
                       (case applyRefactored F buildRoot (RefactoredInPlace results) w3 of
                          (Some err, w4) \<Rightarrow> (Some err, w4)
                        | (None, w4) \<Rightarrow>
                            (case cleanupEmptyDirectories H buildRoot results w4 of
                               (cleanupErr, w5) \<Rightarrow> (None, w5))))))"

definition reportAndApplyResults ::
  "host \<Rightarrow> ResultsContainer \<Rightarrow> world \<Rightarrow> error option \<times> world" where
  "reportAndApplyResults H results w =
     (case applyChanges H results w of
        (Some err, w1) \<Rightarrow> (Some (Errorf ''failed to apply changes'' err), w1)
      | (None, w1) \<Rightarrow> (None, w1))"

text \<open>\<^verbatim>\<open>Execute\<close> and \<^verbatim>\<open>DryRun\<close>: the error of the run and the world it leaves.\<close>

definition Execute :: "host \<Rightarrow> Rewriter \<Rightarrow> world \<Rightarrow> error option \<times> world" where
  "Execute H r w =
     (if Skip (Config r) then (None, w)
      else
        (case LoadEnvironment H r of
           Inl err \<Rightarrow> (Some (Errorf ''failed to load environment'' err), w)
         | Inr r1 \<Rightarrow>
             (case GetBuildRoot (faults H) r1 w of
                Inl err \<Rightarrow> (Some (Errorf ''failed to get build root'' err), w)
              | Inr buildRoot \<Rightarrow>
                  (case FindSourceFiles (faults H) r1 w buildRoot of
                     (sourceFiles, Some err) \<Rightarrow>
                       (Some (Errorf ''failed to find source files'' err), w)
                   | (sourceFiles, None) \<Rightarrow>
                       if length sourceFiles = 0 then (None, w)
                       else
                         (case ProcessFiles H r1 w sourceFiles of
                            Inl err \<Rightarrow> (Some (Errorf ''failed to process files'' err), w)
                          | Inr results \<Rightarrow>
                              (case FirstException results of
                                 Some firstException \<Rightarrow> (Some firstException, w)
                               | None \<Rightarrow>
                                   if IsNotEmpty results then
                                     (case reportAndApplyResults H results w of
                                        (Some err, w1) \<Rightarrow>
                                          (Some (Errorf ''failed to apply results'' err), w1)
                                      | (None, w1) \<Rightarrow> (None, w1))
                                   else (None, w)))))))"

definition DryRun :: "host \<Rightarrow> Rewriter \<Rightarrow> world \<Rightarrow> error option \<times> world" where
  "DryRun H r w =
     (if Skip (Config r) then (None, w)
      else
        (case LoadEnvironment H r of
           Inl err \<Rightarrow> (Some (Errorf ''failed to load environment'' err), w)
         | Inr r1 \<Rightarrow>
             (case GetBuildRoot (faults H) r1 w of
                Inl err \<Rightarrow> (Some (Errorf ''failed to get build root'' err), w)
              | Inr buildRoot \<Rightarrow>
                  (case FindSourceFiles (faults H) r1 w buildRoot of
                     (sourceFiles, Some err) \<Rightarrow>
                       (Some (Errorf ''failed to find source files'' err), w)
                   | (sourceFiles, None) \<Rightarrow>
                       if length sourceFiles = 0 then (None, w)
                       else
                         (case ProcessFiles H r1 w sourceFiles of
                            Inl err \<Rightarrow> (Some (Errorf ''failed to process files'' err), w)
                          | Inr results \<Rightarrow>
                              (case FirstException results of
                                 Some firstException \<Rightarrow> (Some firstException, w)
                               | None \<Rightarrow> (None, w)))))))"

section \<open>Lemmas about the loops\<close>

subsection \<open>The apply\<close>




text \<open>The error of the apply is settled by the four loops.\<close>

lemma applyChanges_success:
  assumes "applyGenerated (faults H) (ProjectRoot results) (Generated results) w = (None, w1)"
    and "applyDeleted (faults H) (ProjectRoot results) (Deleted results) w1 = (None, w2)"
    and "applyMoved (faults H) (ProjectRoot results) (Moved results) w2 = (None, w3)"
    and "applyRefactored (faults H) (ProjectRoot results) (RefactoredInPlace results) w3 = (None, w4)"
  shows "applyChanges H results w =
           (None, snd (cleanupEmptyDirectories H (ProjectRoot results) results w4))"
  using assms by (simp add: applyChanges_def split: prod.splits)

subsection \<open>The processing loop\<close>

lemma processLoop_append:
  "processLoop H r env w (xs @ ys) rc = processLoop H r env w ys (processLoop H r env w xs rc)"
  by (induction xs arbitrary: rc) (auto split: sum.splits option.splits)

lemma FirstException_categorize [simp]:
  "FirstException (categorize result rc) = FirstException rc"
  by (simp add: categorize_def split: option.splits)

lemma processLoop_keeps_first:
  "FirstException rc = Some e \<Longrightarrow> FirstException (processLoop H r env w files rc) = Some e"
  by (induction files arbitrary: rc) (auto split: sum.splits option.splits)

lemma processLoop_no_failure:
  "\<forall>f \<in> set files. \<not> isl (processFile H r env w f) \<Longrightarrow>
   FirstException (processLoop H r env w files rc) = FirstException rc"
  by (induction files arbitrary: rc) (auto split: sum.splits option.splits)

text \<open>The buckets after the loop depend on the buckets before it, not on the retained error.\<close>

lemma processLoop_buckets:
  assumes "Generated rc = Generated rc'" and "Deleted rc = Deleted rc'"
    and "Moved rc = Moved rc'" and "RefactoredInPlace rc = RefactoredInPlace rc'"
  shows "Generated (processLoop H r env w files rc) = Generated (processLoop H r env w files rc')
       \<and> Deleted (processLoop H r env w files rc) = Deleted (processLoop H r env w files rc')
       \<and> Moved (processLoop H r env w files rc) = Moved (processLoop H r env w files rc')
       \<and> RefactoredInPlace (processLoop H r env w files rc)
           = RefactoredInPlace (processLoop H r env w files rc')"
  using assms
proof (induction files arbitrary: rc rc')
  case Nil
  then show ?case by simp
next
  case (Cons f files)
  show ?case
  proof (cases "processFile H r env w f")
    case (Inl e)
    let ?rc = "if FirstException rc = None then rc\<lparr>FirstException := Some e\<rparr> else rc"
    let ?rc' = "if FirstException rc' = None then rc'\<lparr>FirstException := Some e\<rparr> else rc'"
    have "Generated ?rc = Generated ?rc'" "Deleted ?rc = Deleted ?rc'"
      "Moved ?rc = Moved ?rc'" "RefactoredInPlace ?rc = RefactoredInPlace ?rc'"
      using Cons.prems by simp_all
    from Cons.IH[OF this] Inl show ?thesis by simp
  next
    case (Inr res)
    show ?thesis
    proof (cases res)
      case None
      with Inr Cons.IH[OF Cons.prems] show ?thesis by simp
    next
      case (Some result)
      let ?rc = "categorize result rc" and ?rc' = "categorize result rc'"
      have "Generated ?rc = Generated ?rc'" "Deleted ?rc = Deleted ?rc'"
        "Moved ?rc = Moved ?rc'" "RefactoredInPlace ?rc = RefactoredInPlace ?rc'"
        using Cons.prems by (simp_all add: categorize_def split: option.splits)
      from Cons.IH[OF this] Inr Some show ?thesis by simp
    qed
  qed
qed

subsection \<open>The walk\<close>

lemma walkEntries_append:
  "walkEntries F fn path (pre @ post) s =
     (case walkEntries F fn path pre s of
        (Some err, s1) \<Rightarrow> (Some err, s1)
      | (None, s1) \<Rightarrow> walkEntries F fn path post s1)"
  by (induction pre arbitrary: s) (auto split: option.splits prod.splits)

subsection \<open>The sort of the candidates\<close>















subsection \<open>The candidates and the removal loop\<close>










section \<open>Example data\<close>

text \<open>
  Short forms for the values at which the theorems below are evaluated: a host with
  given faults and a map order that keeps the order of insertion, a source file in
  UTF-8, a result, a results container without a retained error, a world whose
  working directory is the root, and a rewriter with the default configuration.
\<close>

abbreviation hostWith :: "faults \<Rightarrow> host" where
  "hostWith F \<equiv>
     \<lparr>faults = F, recipes = applyRecipes, mapKeys = id,
      loadedEnvironment = Inr \<lparr>ActiveRecipes = []\<rparr>\<rparr>"

abbreviation utf8File :: "string \<Rightarrow> string \<Rightarrow> SourceFile" where
  "utf8File path content \<equiv>
     \<lparr>Path = path, Content = content, Charset = ''UTF-8'', Modified = False\<rparr>"

abbreviation change :: "SourceFile option \<Rightarrow> SourceFile option \<Rightarrow> Result" where
  "change b a \<equiv> \<lparr>Before = b, After = a, RecipesThatMadeChanges = [], TimeSaved = Minute\<rparr>"

abbreviation container ::
  "Result list \<Rightarrow> Result list \<Rightarrow> Result list \<Rightarrow> Result list \<Rightarrow> string \<Rightarrow> ResultsContainer" where
  "container g d m rf root \<equiv>
     \<lparr>Generated = g, Deleted = d, Moved = m, RefactoredInPlace = rf, ProjectRoot = root,
      FirstException = None\<rparr>"

abbreviation rootedAt :: "node \<Rightarrow> world" where
  "rootedAt t \<equiv> \<lparr>tree = t, cwd = ''/''\<rparr>"

abbreviation rewriterAt :: "string \<Rightarrow> Environment option \<Rightarrow> Rewriter" where
  "rewriterAt base env \<equiv>
     \<lparr>Config = \<lparr>Skip = False, Exclusions = [], PlainTextMasks = [],
                 AdditionalPlainTextMasks = [], SizeThresholdMb = 10\<rparr>,
      Environment = env, BaseDir = base\<rparr>"

section \<open>The claims\<close>

subsection \<open>C1: applying a moved change\<close>

text \<open>
  C1 at a failing input. The file \<^verbatim>\<open>/proj/a/old.txt\<close> holds \<^verbatim>\<open>old\<close>; the moved
  change takes it to \<^verbatim>\<open>b/new.txt\<close> with the content \<^verbatim>\<open>new\<close>. When the rename
  succeeds, the file at the after-path holds the old content: the after-content is
  never written. When the rename fails (here across devices), the fallback writes the
  after-content. The two paths of the code end in different states.
\<close>

theorem move_keeps_old_content:
  "applyChanges (hostWith noFaults)
     (container [] []
        [change (Some (utf8File ''a/old.txt'' ''old'')) (Some (utf8File ''b/new.txt'' ''new''))]
        [] ''/proj'')
     (rootedAt (DirNode [(''proj'', DirNode [(''a'', DirNode [(''old.txt'', FileNode ''old'')])])]))
   = (None,
      rootedAt (DirNode [(''proj'', DirNode [(''b'', DirNode [(''new.txt'', FileNode ''old'')])])]))
   \<and> applyChanges
     (hostWith (noFaults(OpRename ''/proj/a/old.txt'' ''/proj/b/new.txt'' := Some EXDEV)))
     (container [] []
        [change (Some (utf8File ''a/old.txt'' ''old'')) (Some (utf8File ''b/new.txt'' ''new''))]
        [] ''/proj'')
     (rootedAt (DirNode [(''proj'', DirNode [(''a'', DirNode [(''old.txt'', FileNode ''old'')])])]))
   = (None,
      rootedAt (DirNode [(''proj'', DirNode [(''b'', DirNode [(''new.txt'', FileNode ''new'')])])]))"
  by code_simp

subsection \<open>C2: the pruning of empty directories\<close>



subsection \<open>C3: the classification of a move\<close>


subsection \<open>C4: the pattern with two double asterisks\<close>

text \<open>
  C4, as the spec states it: the pattern \<^verbatim>\<open>**/target/**\<close> matches the path
  \<^verbatim>\<open>foo/target/classes/x.class\<close>. In the program it does not.
\<close>

theorem target_pattern_counterexample:
  "\<not> matchesPatterns ''foo/target/classes/x.class'' [''**/target/**'']"
  by code_simp

text \<open>
  C4, amended: the pattern \<^verbatim>\<open>**/target/**\<close> has two double asterisks and splits into
  three parts, so the prefix and suffix test is never made for it and the answer is the
  one of \<^verbatim>\<open>filepath.Match\<close>, whose stars do not cross a separator. The answer is false
  for \<^verbatim>\<open>foo/target/classes/x.class\<close> and for \<^verbatim>\<open>foo/targetx/x.class\<close>; it is true
  for \<^verbatim>\<open>foo/target/x.class\<close>, with one element on each side.
\<close>

theorem target_pattern:
  "matchesPatterns path [''**/target/**''] = Match ''**/target/**'' path
   \<and> length (Split ''**/target/**'' ''**'') = 3
   \<and> \<not> matchesPatterns ''foo/target/classes/x.class'' [''**/target/**'']
   \<and> \<not> matchesPatterns ''foo/targetx/x.class'' [''**/target/**'']
   \<and> matchesPatterns ''foo/target/x.class'' [''**/target/**'']"
proof -
  have three: "length (Split ''**/target/**'' ''**'') = 3"
    by code_simp
  then have "matchesPatterns path [''**/target/**''] = Match ''**/target/**'' path"
    by simp
  moreover have "\<not> Match ''**/target/**'' ''foo/target/classes/x.class''"
    by code_simp
  moreover have "\<not> Match ''**/target/**'' ''foo/targetx/x.class''"
    by code_simp
  moreover have "Match ''**/target/**'' ''foo/target/x.class''"
    by code_simp
  ultimately show ?thesis using three by simp
qed

subsection \<open>C5: deleting a file that is not there\<close>



subsection \<open>C6: failures of the pruning\<close>

text \<open>
  C6: the pruning pass reports success whatever happens in it; a directory that is empty
  and cannot be removed does not stop the loop, which goes on with the directories after
  it; and when the four buckets have been applied without error, the apply ends without
  error, in the world the pruning pass leaves, whatever fails in that pass.
\<close>

theorem pruning_failure_is_tolerated:
  "fst (cleanupEmptyDirectories H buildRoot results wc) = None
   \<and> (isEmptyDir F wl dir \<and> os_Remove F wl dir = (Some err, wl') \<longrightarrow>
        removeEmptyDirs F (dir # dirs) wl = removeEmptyDirs F dirs wl')
   \<and> (applyGenerated (faults H) (ProjectRoot results) (Generated results) w = (None, wg)
        \<and> applyDeleted (faults H) (ProjectRoot results) (Deleted results) wg = (None, wd)
        \<and> applyMoved (faults H) (ProjectRoot results) (Moved results) wd = (None, wm)
        \<and> applyRefactored (faults H) (ProjectRoot results) (RefactoredInPlace results) wm
            = (None, wr) \<longrightarrow>
      applyChanges H results w
        = (None, snd (cleanupEmptyDirectories H (ProjectRoot results) results wr)))"
  using applyChanges_success[of H results w wg wd wm wr]
  by (simp add: cleanupEmptyDirectories_def)

theorem pruning_failure_is_tolerated_witness:
  "isEmptyDir (noFaults(OpRemove ''/proj/a'' := Some EACCES))
     (rootedAt (DirNode [(''proj'', DirNode [(''a'', DirNode [])])])) ''/proj/a''
   \<and> os_Remove (noFaults(OpRemove ''/proj/a'' := Some EACCES))
       (rootedAt (DirNode [(''proj'', DirNode [(''a'', DirNode [])])])) ''/proj/a''
     = (Some (PathError ''remove'' ''/proj/a'' EACCES),
        rootedAt (DirNode [(''proj'', DirNode [(''a'', DirNode [])])]))
   \<and> removeEmptyDirs (noFaults(OpRemove ''/proj/a'' := Some EACCES)) [''/proj/a'']
       (rootedAt (DirNode [(''proj'', DirNode [(''a'', DirNode [])])]))
     = ([], rootedAt (DirNode [(''proj'', DirNode [(''a'', DirNode [])])]))
   \<and> applyChanges (hostWith (noFaults(OpRemove ''/proj/a'' := Some EACCES)))
       (container [] [change (Some (utf8File ''a/x.txt'' ''x'')) None] [] [] ''/proj'')
       (rootedAt (DirNode [(''proj'', DirNode [(''a'', DirNode [(''x.txt'', FileNode ''x'')])])]))
     = (None, rootedAt (DirNode [(''proj'', DirNode [(''a'', DirNode [])])]))"
proof -
  let ?G = "noFaults(OpRemove ''/proj/a'' := Some EACCES)"
  let ?w = "rootedAt (DirNode [(''proj'', DirNode [(''a'', DirNode [(''x.txt'', FileNode ''x'')])])])"
  let ?wd = "rootedAt (DirNode [(''proj'', DirNode [(''a'', DirNode [])])])"
  let ?res = "container [] [change (Some (utf8File ''a/x.txt'' ''x'')) None] [] [] ''/proj''"
  have empty: "isEmptyDir ?G ?wd ''/proj/a''"
    by code_simp
  have denied: "os_Remove ?G ?wd ''/proj/a'' = (Some (PathError ''remove'' ''/proj/a'' EACCES), ?wd)"
    by (simp add: os_Remove_def)
  have g: "applyGenerated (faults (hostWith ?G)) (ProjectRoot ?res) (Generated ?res) ?w = (None, ?w)"
    by simp
  have d: "applyDeleted (faults (hostWith ?G)) (ProjectRoot ?res) (Deleted ?res) ?w = (None, ?wd)"
    by code_simp
  have m: "applyMoved (faults (hostWith ?G)) (ProjectRoot ?res) (Moved ?res) ?wd = (None, ?wd)"
    by simp
  have r: "applyRefactored (faults (hostWith ?G)) (ProjectRoot ?res) (RefactoredInPlace ?res) ?wd
      = (None, ?wd)"
    by simp
  have clean: "snd (cleanupEmptyDirectories (hostWith ?G) (ProjectRoot ?res) ?res ?wd) = ?wd"
    by code_simp
  note inst = pruning_failure_is_tolerated[where H = "hostWith ?G" and results = ?res
      and F = ?G and dir = "''/proj/a''" and wl = ?wd and wl' = ?wd and dirs = "[]"
      and w = ?w and wg = ?w and wd = ?wd and wm = ?wd and wr = ?wd
      and err = "PathError ''remove'' ''/proj/a'' EACCES"]
  from inst empty denied have loop: "removeEmptyDirs ?G [''/proj/a''] ?wd = ([], ?wd)"
    by simp
  from inst g d m r clean have applied: "applyChanges (hostWith ?G) ?res ?w = (None, ?wd)"
    by simp
  show ?thesis
    by (rule conjI[OF empty conjI[OF denied conjI[OF loop applied]]])
qed

subsection \<open>C7: the first failure of the processing\<close>

text \<open>
  C7: let the environment be loaded, let the files before \<open>filePath\<close> be processed
  without error and let \<open>filePath\<close> fail with \<open>err\<close>. Then \<^verbatim>\<open>ProcessFiles\<close> returns a
  container that retains \<open>err\<close> as its first failure, and whose four buckets are those
  of the run over the other files, the ones after \<open>filePath\<close> included: the processing
  goes on. And \<^verbatim>\<open>Execute\<close>, with this list of source files found, ends with \<open>err\<close>,
  the world as it was.
\<close>

theorem first_failure_is_retained:
  assumes "Environment r = Some env"
    and "sourceFiles = pre @ filePath # post"
    and "\<forall>f \<in> set pre. \<not> isl (processFile H r env w f)"
    and "processFile H r env w filePath = Inl err"
  shows "(\<exists>results rest.
            ProcessFiles H r w sourceFiles = Inr results
            \<and> ProcessFiles H r w (pre @ post) = Inr rest
            \<and> FirstException results = Some err
            \<and> Generated results = Generated rest \<and> Deleted results = Deleted rest
            \<and> Moved results = Moved rest
            \<and> RefactoredInPlace results = RefactoredInPlace rest)
       \<and> (\<not> Skip (Config rw) \<and> LoadEnvironment H rw = Inr r
            \<and> GetBuildRoot (faults H) r w = Inr buildRoot
            \<and> FindSourceFiles (faults H) r w buildRoot = (sourceFiles, None) \<longrightarrow>
          Execute H rw w = (Some err, w))"
proof -
  define init where "init = \<lparr>Generated = [], Deleted = [], Moved = [], RefactoredInPlace = [],
    ProjectRoot = BaseDir r, FirstException = None\<rparr>"
  define mid where "mid = processLoop H r env w pre init"
  define results where "results = processLoop H r env w sourceFiles init"
  define rest where "rest = processLoop H r env w (pre @ post) init"
  have pf: "ProcessFiles H r w sourceFiles = Inr results"
    and pr: "ProcessFiles H r w (pre @ post) = Inr rest"
    using assms(1) by (simp_all add: ProcessFiles_def results_def rest_def init_def)
  have midfe: "FirstException mid = None"
    unfolding mid_def using processLoop_no_failure[OF assms(3), of init] by (simp add: init_def)
  have res: "results = processLoop H r env w post (mid\<lparr>FirstException := Some err\<rparr>)"
    unfolding results_def assms(2) using assms(4) midfe
    by (simp add: processLoop_append mid_def)
  have fe: "FirstException results = Some err"
    unfolding res by (rule processLoop_keeps_first) simp
  have same: "Generated results = Generated rest \<and> Deleted results = Deleted rest
      \<and> Moved results = Moved rest \<and> RefactoredInPlace results = RefactoredInPlace rest"
    unfolding res rest_def processLoop_append mid_def[symmetric]
    by (rule processLoop_buckets) simp_all
  have ex: "Execute H rw w = (Some err, w)"
    if "\<not> Skip (Config rw)" "LoadEnvironment H rw = Inr r"
      "GetBuildRoot (faults H) r w = Inr buildRoot"
      "FindSourceFiles (faults H) r w buildRoot = (sourceFiles, None)"
    using that pf fe assms(2) by (simp add: Execute_def)
  from pf pr fe same ex show ?thesis by blast
qed

theorem first_failure_is_retained_witness:
  "\<not> isl (processFile
       \<lparr>faults = noFaults(OpReadFile ''/r/b.go'' := Some EACCES),
        recipes = (\<lambda>f. f\<lparr>Content := Content f @ ''!''\<rparr>), mapKeys = id,
        loadedEnvironment = Inr \<lparr>ActiveRecipes = [\<lparr>Name = ''fix''\<rparr>]\<rparr>\<rparr>
       (rewriterAt ''/r'' (Some \<lparr>ActiveRecipes = [\<lparr>Name = ''fix''\<rparr>]\<rparr>))
       \<lparr>ActiveRecipes = [\<lparr>Name = ''fix''\<rparr>]\<rparr>
       (rootedAt (DirNode [(''r'', DirNode [(''a.go'', FileNode ''A''), (''b.go'', FileNode ''B''),
                                            (''c.go'', FileNode ''C'')])]))
       ''/r/a.go'')
   \<and> Execute
     \<lparr>faults = noFaults(OpReadFile ''/r/b.go'' := Some EACCES),
      recipes = (\<lambda>f. f\<lparr>Content := Content f @ ''!''\<rparr>), mapKeys = id,
      loadedEnvironment = Inr \<lparr>ActiveRecipes = [\<lparr>Name = ''fix''\<rparr>]\<rparr>\<rparr>
     (rewriterAt ''/r'' None)
     (rootedAt (DirNode [(''r'', DirNode [(''a.go'', FileNode ''A''), (''b.go'', FileNode ''B''),
                                          (''c.go'', FileNode ''C'')])]))
   = (Some (Errorf ''failed to read file /r/b.go'' (PathError ''open'' ''/r/b.go'' EACCES)),
      rootedAt (DirNode [(''r'', DirNode [(''a.go'', FileNode ''A''), (''b.go'', FileNode ''B''),
                                          (''c.go'', FileNode ''C'')])]))
   \<and> (\<exists>results.
        ProcessFiles
          \<lparr>faults = noFaults(OpReadFile ''/r/b.go'' := Some EACCES),
           recipes = (\<lambda>f. f\<lparr>Content := Content f @ ''!''\<rparr>), mapKeys = id,
           loadedEnvironment = Inr \<lparr>ActiveRecipes = [\<lparr>Name = ''fix''\<rparr>]\<rparr>\<rparr>
          (rewriterAt ''/r'' (Some \<lparr>ActiveRecipes = [\<lparr>Name = ''fix''\<rparr>]\<rparr>))
          (rootedAt (DirNode [(''r'', DirNode [(''a.go'', FileNode ''A''),
                                               (''b.go'', FileNode ''B''),
                                               (''c.go'', FileNode ''C'')])]))
          [''/r/a.go'', ''/r/b.go'', ''/r/c.go'']
        = Inr results
        \<and> FirstException results
            = Some (Errorf ''failed to read file /r/b.go'' (PathError ''open'' ''/r/b.go'' EACCES))
        \<and> RefactoredInPlace results
            = [\<lparr>Before = Some (utf8File ''a.go'' ''A''), After = Some (utf8File ''a.go'' ''A!''),
                RecipesThatMadeChanges = [''fix''], TimeSaved = Minute\<rparr>,
               \<lparr>Before = Some (utf8File ''c.go'' ''C''), After = Some (utf8File ''c.go'' ''C!''),
                RecipesThatMadeChanges = [''fix''], TimeSaved = Minute\<rparr>])"
proof -
  let ?H = "\<lparr>faults = noFaults(OpReadFile ''/r/b.go'' := Some EACCES),
      recipes = (\<lambda>f. f\<lparr>Content := Content f @ ''!''\<rparr>), mapKeys = id,
      loadedEnvironment = Inr \<lparr>ActiveRecipes = [\<lparr>Name = ''fix''\<rparr>]\<rparr>\<rparr>"
  let ?env = "\<lparr>ActiveRecipes = [\<lparr>Name = ''fix''\<rparr>]\<rparr>"
  let ?bare = "rewriterAt ''/r'' None"
  let ?loaded = "rewriterAt ''/r'' (Some ?env)"
  let ?w = "rootedAt (DirNode [(''r'', DirNode [(''a.go'', FileNode ''A''),
    (''b.go'', FileNode ''B''), (''c.go'', FileNode ''C'')])])"
  let ?err = "Errorf ''failed to read file /r/b.go'' (PathError ''open'' ''/r/b.go'' EACCES)"
  let ?changes = "[\<lparr>Before = Some (utf8File ''a.go'' ''A''), After = Some (utf8File ''a.go'' ''A!''),
                RecipesThatMadeChanges = [''fix''], TimeSaved = Minute\<rparr>,
               \<lparr>Before = Some (utf8File ''c.go'' ''C''), After = Some (utf8File ''c.go'' ''C!''),
                RecipesThatMadeChanges = [''fix''], TimeSaved = Minute\<rparr>]"
  have h1: "Environment ?loaded = Some ?env"
    by simp
  have h2: "[''/r/a.go'', ''/r/b.go'', ''/r/c.go''] = [''/r/a.go''] @ ''/r/b.go'' # [''/r/c.go'']"
    by simp
  have ok: "\<not> isl (processFile ?H ?loaded ?env ?w ''/r/a.go'')"
    by code_simp
  then have h3: "\<forall>f \<in> set [''/r/a.go'']. \<not> isl (processFile ?H ?loaded ?env ?w f)"
    by simp
  have h4: "processFile ?H ?loaded ?env ?w ''/r/b.go'' = Inl ?err"
    by code_simp
  have skip: "\<not> Skip (Config ?bare)"
    by simp
  have load: "LoadEnvironment ?H ?bare = Inr ?loaded"
    by (simp add: LoadEnvironment_def)
  have root: "GetBuildRoot (faults ?H) ?loaded ?w = Inr ''/r''"
    by code_simp
  have found: "FindSourceFiles (faults ?H) ?loaded ?w ''/r''
      = ([''/r/a.go'', ''/r/b.go'', ''/r/c.go''], None)"
    by code_simp
  have others: "ProcessFiles ?H ?loaded ?w ([''/r/a.go''] @ [''/r/c.go''])
      = Inr (container [] [] [] ?changes ''/r'')"
    by code_simp
  note inst = first_failure_is_retained[OF h1 h2 h3 h4, where rw = ?bare
      and buildRoot = "''/r''"]
  have run: "Execute ?H ?bare ?w = (Some ?err, ?w)"
    by (rule inst[THEN conjunct2, THEN mp, OF conjI[OF skip conjI[OF load conjI[OF root found]]]])
  from inst[THEN conjunct1] obtain results rest where
    whole: "ProcessFiles ?H ?loaded ?w [''/r/a.go'', ''/r/b.go'', ''/r/c.go''] = Inr results"
    and part: "ProcessFiles ?H ?loaded ?w ([''/r/a.go''] @ [''/r/c.go'']) = Inr rest"
    and first: "FirstException results = Some ?err"
    and same: "RefactoredInPlace results = RefactoredInPlace rest"
    by blast
  from part others have "rest = container [] [] [] ?changes ''/r''"
    by (simp only: sum.inject)
  then have "RefactoredInPlace rest = ?changes"
    by simp
  with same have bucket: "RefactoredInPlace results = ?changes"
    by (rule trans)
  have "\<exists>results. ProcessFiles ?H ?loaded ?w [''/r/a.go'', ''/r/b.go'', ''/r/c.go''] = Inr results
      \<and> FirstException results = Some ?err
      \<and> RefactoredInPlace results = ?changes"
    by (rule exI[of _ results]) (rule conjI[OF whole conjI[OF first bucket]])
  with ok run show ?thesis by (intro conjI)
qed

subsection \<open>C8: an error during the walk\<close>

text \<open>
  C8, as the spec states it: after an error of the walk no partial list of candidates is
  returned to the caller. Here the directory \<^verbatim>\<open>/r/b\<close> cannot be read;
  \<^verbatim>\<open>FindSourceFiles\<close> returns the error and, with it, the file found before.
\<close>

theorem partial_list_counterexample:
  "FindSourceFiles (noFaults(OpReadDir ''/r/b'' := Some EACCES)) (rewriterAt ''/r'' None)
     (rootedAt (DirNode [(''r'', DirNode [(''a.go'', FileNode ''package a''),
                                          (''b'', DirNode [(''c.go'', FileNode ''package c'')])])]))
     ''/r''
   = ([''/r/a.go''], Some (PathError ''open'' ''/r/b'' EACCES))"
  by code_simp

text \<open>
  C8, amended: an error of the file system during the walk ends the discovery and is
  its error. A directory that cannot be read ends the walk at once, its entries not
  visited; an entry whose \<^verbatim>\<open>Lstat\<close> fails ends the walk of the directory, the entries
  after it not visited; an error below an entry ends the walk of the directory likewise;
  a root that cannot be read gives the error and the empty list. \<^verbatim>\<open>FindSourceFiles\<close>
  returns the files found before the error together with the error, and its callers
  \<^verbatim>\<open>Execute\<close> and \<^verbatim>\<open>DryRun\<close> return the error, wrapped, use no file of that list and
  leave the world as it was.
\<close>

theorem walk_error_aborts_discovery:
  "(F (OpReadDir path) = Some e \<longrightarrow>
      walk F (findWalkFn r rootDir exclusions masks) path (DirNode entries) found
        = (Some (PathError ''open'' path e), found))
   \<and> (walkEntries F (findWalkFn r rootDir exclusions masks) path pre found = (None, found')
        \<and> F (OpLstat (Join path name)) = Some e \<longrightarrow>
      walkEntries F (findWalkFn r rootDir exclusions masks) path (pre @ (name, child) # post)
          found
        = (Some (PathError ''lstat'' (Join path name) e), found'))
   \<and> (walkEntries F walkFn path pre s = (None, s') \<and> F (OpLstat (Join path name)) = None
        \<and> walk F walkFn (Join path name) child s' = (Some err, s'') \<longrightarrow>
      walkEntries F walkFn path (pre @ (name, child) # post) s = (Some err, s''))
   \<and> (os_Lstat F w rootDir = Inl err \<longrightarrow> FindSourceFiles F r w rootDir = ([], Some err))
   \<and> (\<not> Skip (Config rw) \<and> LoadEnvironment H rw = Inr r
        \<and> GetBuildRoot (faults H) r w = Inr buildRoot
        \<and> FindSourceFiles (faults H) r w buildRoot = (sourceFiles, Some err) \<longrightarrow>
      Execute H rw w = (Some (Errorf ''failed to find source files'' err), w)
      \<and> DryRun H rw w = (Some (Errorf ''failed to find source files'' err), w))"
proof -
  let ?fn = "findWalkFn r rootDir exclusions masks"
  have a: "walk F ?fn path (DirNode entries) found = (Some (PathError ''open'' path e), found)"
    if "F (OpReadDir path) = Some e"
    using that by (simp add: findWalkFn_def)
  have b: "walkEntries F ?fn path (pre @ (name, child) # post) found
      = (Some (PathError ''lstat'' (Join path name) e), found')"
    if "walkEntries F ?fn path pre found = (None, found')" "F (OpLstat (Join path name)) = Some e"
    using that by (simp add: walkEntries_append findWalkFn_def)
  have c: "walkEntries F walkFn path (pre @ (name, child) # post) s = (Some err, s'')"
    if "walkEntries F walkFn path pre s = (None, s')" "F (OpLstat (Join path name)) = None"
      "walk F walkFn (Join path name) child s' = (Some err, s'')"
    using that by (simp add: walkEntries_append)
  have d: "FindSourceFiles F r w rootDir = ([], Some err)" if "os_Lstat F w rootDir = Inl err"
    using that by (simp add: FindSourceFiles_def Walk_def findWalkFn_def)
  have e: "Execute H rw w = (Some (Errorf ''failed to find source files'' err), w)
      \<and> DryRun H rw w = (Some (Errorf ''failed to find source files'' err), w)"
    if "\<not> Skip (Config rw)" "LoadEnvironment H rw = Inr r"
      "GetBuildRoot (faults H) r w = Inr buildRoot"
      "FindSourceFiles (faults H) r w buildRoot = (sourceFiles, Some err)"
    using that by (simp add: Execute_def DryRun_def)
  from a b c d e show ?thesis by blast
qed

theorem walk_error_aborts_discovery_witness:
  "FindSourceFiles (noFaults(OpReadDir ''/r/b'' := Some EACCES))
     (rewriterAt ''/r'' (Some \<lparr>ActiveRecipes = []\<rparr>))
     (rootedAt (DirNode [(''r'', DirNode [(''a.go'', FileNode ''package a''),
                                          (''b'', DirNode [(''c.go'', FileNode ''package c'')])])]))
     ''/r''
   = ([''/r/a.go''], Some (PathError ''open'' ''/r/b'' EACCES))
   \<and> Execute (hostWith (noFaults(OpReadDir ''/r/b'' := Some EACCES))) (rewriterAt ''/r'' None)
       (rootedAt (DirNode [(''r'', DirNode [(''a.go'', FileNode ''package a''),
                                            (''b'', DirNode [(''c.go'', FileNode ''package c'')])])]))
     = (Some (Errorf ''failed to find source files'' (PathError ''open'' ''/r/b'' EACCES)),
        rootedAt (DirNode [(''r'', DirNode [(''a.go'', FileNode ''package a''),
                                            (''b'', DirNode [(''c.go'', FileNode ''package c'')])])]))
   \<and> DryRun (hostWith (noFaults(OpReadDir ''/r/b'' := Some EACCES))) (rewriterAt ''/r'' None)
       (rootedAt (DirNode [(''r'', DirNode [(''a.go'', FileNode ''package a''),
                                            (''b'', DirNode [(''c.go'', FileNode ''package c'')])])]))
     = (Some (Errorf ''failed to find source files'' (PathError ''open'' ''/r/b'' EACCES)),
        rootedAt (DirNode [(''r'', DirNode [(''a.go'', FileNode ''package a''),
                                            (''b'', DirNode [(''c.go'', FileNode ''package c'')])])]))
   \<and> FindSourceFiles (noFaults(OpLstat ''/gone'' := Some EIO))
       (rewriterAt ''/gone'' None) (rootedAt (DirNode [])) ''/gone''
     = ([], Some (PathError ''lstat'' ''/gone'' EIO))
   \<and> walk (noFaults(OpReadDir ''/r/b'' := Some EACCES))
       (findWalkFn (rewriterAt ''/r'' None) ''/r'' [] getDefaultPlainTextMasks) ''/r/b''
       (DirNode [(''c.go'', FileNode ''package c'')]) [''/r/a.go'']
     = (Some (PathError ''open'' ''/r/b'' EACCES), [''/r/a.go''])
   \<and> walkEntries (noFaults(OpReadDir ''/r/b'' := Some EACCES))
       (findWalkFn (rewriterAt ''/r'' None) ''/r'' [] getDefaultPlainTextMasks) ''/r''
       ([(''a.go'', FileNode ''package a'')]
        @ (''b'', DirNode [(''c.go'', FileNode ''package c'')])
        # [(''d.go'', FileNode ''package d'')]) []
     = (Some (PathError ''open'' ''/r/b'' EACCES), [''/r/a.go''])
   \<and> walkEntries (noFaults(OpLstat ''/r/b'' := Some EIO))
       (findWalkFn (rewriterAt ''/r'' None) ''/r'' [] getDefaultPlainTextMasks) ''/r''
       ([(''a.go'', FileNode ''package a'')]
        @ (''b'', DirNode [(''c.go'', FileNode ''package c'')])
        # [(''d.go'', FileNode ''package d'')]) []
     = (Some (PathError ''lstat'' ''/r/b'' EIO), [''/r/a.go''])"
proof -
  let ?G = "noFaults(OpReadDir ''/r/b'' := Some EACCES)"
  let ?L = "noFaults(OpLstat ''/r/b'' := Some EIO)"
  let ?env = "\<lparr>ActiveRecipes = []\<rparr>"
  let ?bare = "rewriterAt ''/r'' None"
  let ?loaded = "rewriterAt ''/r'' (Some ?env)"
  let ?sub = "DirNode [(''c.go'', FileNode ''package c'')]"
  let ?w = "rootedAt (DirNode [(''r'', DirNode [(''a.go'', FileNode ''package a''), (''b'', ?sub)])])"
  let ?fn = "findWalkFn ?bare ''/r'' [] getDefaultPlainTextMasks"
  have skip: "\<not> Skip (Config ?bare)"
    by simp
  have load: "LoadEnvironment (hostWith ?G) ?bare = Inr ?loaded"
    by (simp add: LoadEnvironment_def)
  have root: "GetBuildRoot (faults (hostWith ?G)) ?loaded ?w = Inr ''/r''"
    by code_simp
  have found: "FindSourceFiles ?G ?loaded ?w ''/r''
      = ([''/r/a.go''], Some (PathError ''open'' ''/r/b'' EACCES))"
    by code_simp
  then have found': "FindSourceFiles (faults (hostWith ?G)) ?loaded ?w ''/r''
      = ([''/r/a.go''], Some (PathError ''open'' ''/r/b'' EACCES))"
    by simp
  have lstat: "os_Lstat (noFaults(OpLstat ''/gone'' := Some EIO)) (rootedAt (DirNode [])) ''/gone''
      = Inl (PathError ''lstat'' ''/gone'' EIO)"
    by (simp add: os_Lstat_def)
  note inst = walk_error_aborts_discovery[where H = "hostWith ?G" and rw = ?bare and r = ?loaded
      and w = ?w and buildRoot = "''/r''" and sourceFiles = "[''/r/a.go'']"
      and err = "PathError ''open'' ''/r/b'' EACCES"]
  have runs: "Execute (hostWith ?G) ?bare ?w
        = (Some (Errorf ''failed to find source files'' (PathError ''open'' ''/r/b'' EACCES)), ?w)
      \<and> DryRun (hostWith ?G) ?bare ?w
        = (Some (Errorf ''failed to find source files'' (PathError ''open'' ''/r/b'' EACCES)), ?w)"
    by (rule inst[THEN conjunct2, THEN conjunct2, THEN conjunct2, THEN conjunct2, THEN mp,
          OF conjI[OF skip conjI[OF load conjI[OF root found']]]])
  note inst' = walk_error_aborts_discovery[where F = "noFaults(OpLstat ''/gone'' := Some EIO)"
      and w = "rootedAt (DirNode [])" and rootDir = "''/gone''" and r = "rewriterAt ''/gone'' None"
      and err = "PathError ''lstat'' ''/gone'' EIO"]
  have gone: "FindSourceFiles (noFaults(OpLstat ''/gone'' := Some EIO))
       (rewriterAt ''/gone'' None) (rootedAt (DirNode [])) ''/gone''
     = ([], Some (PathError ''lstat'' ''/gone'' EIO))"
    by (rule inst'[THEN conjunct2, THEN conjunct2, THEN conjunct2, THEN conjunct1, THEN mp,
          OF lstat])
  have denied: "?G (OpReadDir ''/r/b'') = Some EACCES"
    by simp
  have dir: "walk ?G ?fn ''/r/b'' ?sub [''/r/a.go'']
      = (Some (PathError ''open'' ''/r/b'' EACCES), [''/r/a.go''])"
    by (rule walk_error_aborts_discovery[where F = ?G and path = "''/r/b''" and e = EACCES
          and r = ?bare and rootDir = "''/r''" and exclusions = "[]"
          and masks = getDefaultPlainTextMasks and entries = "[(''c.go'', FileNode ''package c'')]"
          and found = "[''/r/a.go'']", THEN conjunct1, THEN mp, OF denied])
  have joined: "Join ''/r'' ''b'' = ''/r/b''"
    by code_simp
  have first: "walkEntries F ?fn ''/r'' [(''a.go'', FileNode ''package a'')] []
      = (None, [''/r/a.go''])" if "F (OpLstat ''/r/a.go'') = None" for F
  proof -
    have "Join ''/r'' ''a.go'' = ''/r/a.go''"
      by code_simp
    moreover have "?fn ''/r/a.go'' (Some (FileNode ''package a'')) None [] = (None, [''/r/a.go''])"
      by code_simp
    ultimately show ?thesis using that by simp
  qed
  have quiet: "?G (OpLstat (Join ''/r'' ''b'')) = None"
    by (simp add: noFaults_def)
  have below: "walk ?G ?fn (Join ''/r'' ''b'') ?sub [''/r/a.go'']
      = (Some (PathError ''open'' ''/r/b'' EACCES), [''/r/a.go''])"
    using dir by (simp only: joined)
  have firstG: "walkEntries ?G ?fn ''/r'' [(''a.go'', FileNode ''package a'')] []
      = (None, [''/r/a.go''])"
    by (rule first) (simp add: noFaults_def)
  have deep: "walkEntries ?G ?fn ''/r''
       ([(''a.go'', FileNode ''package a'')] @ (''b'', ?sub) # [(''d.go'', FileNode ''package d'')]) []
     = (Some (PathError ''open'' ''/r/b'' EACCES), [''/r/a.go''])"
    by (rule walk_error_aborts_discovery[where F = ?G and walkFn = ?fn and path = "''/r''"
          and pre = "[(''a.go'', FileNode ''package a'')]" and s = "[]" and s' = "[''/r/a.go'']"
          and name = "''b''" and child = ?sub and s'' = "[''/r/a.go'']"
          and err = "PathError ''open'' ''/r/b'' EACCES"
          and post = "[(''d.go'', FileNode ''package d'')]",
          THEN conjunct2, THEN conjunct2, THEN conjunct1, THEN mp,
          OF conjI[OF firstG conjI[OF quiet below]]])
  have firstL: "walkEntries ?L ?fn ''/r'' [(''a.go'', FileNode ''package a'')] []
      = (None, [''/r/a.go''])"
    by (rule first) (simp add: noFaults_def)
  have broken: "?L (OpLstat (Join ''/r'' ''b'')) = Some EIO"
    by (simp add: joined)
  have entry: "walkEntries ?L ?fn ''/r''
       ([(''a.go'', FileNode ''package a'')] @ (''b'', ?sub) # [(''d.go'', FileNode ''package d'')]) []
     = (Some (PathError ''lstat'' (Join ''/r'' ''b'') EIO), [''/r/a.go''])"
    by (rule walk_error_aborts_discovery[where F = ?L and path = "''/r''"
          and r = ?bare and rootDir = "''/r''" and exclusions = "[]"
          and masks = getDefaultPlainTextMasks
          and pre = "[(''a.go'', FileNode ''package a'')]" and found = "[]"
          and found' = "[''/r/a.go'']" and name = "''b''" and child = ?sub and e = EIO
          and post = "[(''d.go'', FileNode ''package d'')]",
          THEN conjunct2, THEN conjunct1, THEN mp, OF conjI[OF firstL broken]])
  then have entry': "walkEntries ?L ?fn ''/r''
       ([(''a.go'', FileNode ''package a'')] @ (''b'', ?sub) # [(''d.go'', FileNode ''package d'')]) []
     = (Some (PathError ''lstat'' ''/r/b'' EIO), [''/r/a.go''])"
    by (simp only: joined)
  show ?thesis
    by (rule conjI[OF found conjI[OF runs[THEN conjunct1] conjI[OF runs[THEN conjunct2]
          conjI[OF gone conjI[OF dir conjI[OF deep entry']]]]]])
qed

subsection \<open>C9: the pattern with one double asterisk\<close>

text \<open>
  C9, as the spec states it: for a pattern with exactly one double asterisk a path matches
  if and only if it starts with the prefix and ends with the suffix. The pattern
  \<^verbatim>\<open>**/*.java\<close> splits into the empty prefix and the suffix \<^verbatim>\<open>/*.java\<close>; the path
  \<^verbatim>\<open>src/Foo.java\<close> does not end with that suffix, and it matches.
\<close>

theorem double_star_counterexample:
  "Split ''**/*.java'' ''**'' = ['''', ''/*.java'']
   \<and> matchesPatterns ''src/Foo.java'' [''**/*.java'']
   \<and> \<not> HasSuffix ''src/Foo.java'' ''/*.java''"
  by code_simp

text \<open>
  C9, amended: for a pattern that splits on the double asterisk into exactly a prefix and
  a suffix, every path that starts with the prefix and ends with the suffix matches;
  and when the prefix and the suffix are plain (no star, question mark, opening bracket
  or backslash), a path matches if and only if it starts with the prefix and ends with
  the suffix. With wildcards in the prefix or the suffix, \<^verbatim>\<open>filepath.Match\<close>, which
  is tried first, accepts further paths.
\<close>

theorem matchesPatterns_double_star:
  assumes "Split pattern ''**'' = [pre, suf]"
  shows "(HasPrefix path pre \<and> HasSuffix path suf \<longrightarrow> matchesPatterns path [pattern]) \<and>
         (plain pre \<and> plain suf \<longrightarrow>
            (matchesPatterns path [pattern] \<longleftrightarrow> HasPrefix path pre \<and> HasSuffix path suf))"
proof -
  have "''**'' \<noteq> []" by simp
  from Split_two[OF assms this]
  have pat: "pattern = pre @ CHR ''*'' # CHR ''*'' # suf" and c: "Contains pattern ''**''"
    by auto
  have mp: "matchesPatterns path [pattern] \<longleftrightarrow>
      Match pattern path \<or> (HasPrefix path pre \<and> HasSuffix path suf)"
    using assms c by simp
  have "HasPrefix path pre \<and> HasSuffix path suf"
    if "plain pre" "plain suf" "Match pattern path"
    using Match_plain[OF that(1,2)] that(3) pat by (simp add: HasPrefix_def HasSuffix_def)
  with mp show ?thesis by blast
qed

theorem matchesPatterns_double_star_witness:
  "Split ''src/**.go'' ''**'' = [''src/'', ''.go'']
   \<and> plain ''src/'' \<and> plain ''.go''
   \<and> HasPrefix ''src/a/b.go'' ''src/'' \<and> HasSuffix ''src/a/b.go'' ''.go''
   \<and> matchesPatterns ''src/a/b.go'' [''src/**.go'']
   \<and> \<not> HasSuffix ''src/a/b.rs'' ''.go''
   \<and> \<not> matchesPatterns ''src/a/b.rs'' [''src/**.go'']"
proof -
  have s: "Split ''src/**.go'' ''**'' = [''src/'', ''.go'']" by code_simp
  have p: "plain ''src/'' \<and> plain ''.go''" by (simp add: plain_def)
  have a: "HasPrefix ''src/a/b.go'' ''src/'' \<and> HasSuffix ''src/a/b.go'' ''.go''"
    by code_simp
  have b: "\<not> HasSuffix ''src/a/b.rs'' ''.go''" by code_simp
  from matchesPatterns_double_star[OF s, of "''src/a/b.go''"] a
  have m: "matchesPatterns ''src/a/b.go'' [''src/**.go'']" by blast
  from matchesPatterns_double_star[OF s, of "''src/a/b.rs''"] p b
  have n: "\<not> matchesPatterns ''src/a/b.rs'' [''src/**.go'']" by blast
  from s p a b m n show ?thesis by blast
qed

subsection \<open>C10: the extension in lower case\<close>


end
